theory Spec2Isabelle
  imports Main "HOL-Library.AList"
begin

section \<open>The ceilometer charm's hook script, hooks/ceilometer_hooks.py\<close>

text \<open>
  The script is run once per Juju event: it looks the event name up in a table of
  handlers, runs the handler and then reports the unit's status. The handlers do almost
  nothing but call collaborators (charm-helpers, the charm's own utility module, the
  operating system), so the embedding makes three things explicit:
  \<^item> the \<^emph>\<open>world\<close>: the actions performed so far, in order, and the little state the
    properties below talk about (what the unit has published on its relations, the peer
    storage, the local copy of the shared secret);
  \<^item> the \<^emph>\<open>environment\<close>: what the collaborators answer. Every answer may depend on the
    current world, so a question asked twice is answered afresh the second time;
  \<^item> \<^emph>\<open>exceptions\<close>: a handler returns either an exception or a value, together with
    the world it leaves behind.
\<close>

subsection \<open>Python values and strings\<close>

text \<open>The values that travel through configuration options and relation settings.\<close>

datatype rval =
    VNone
  | VBool bool
  | VInt int
  | VStr string
  | VList "string list"
  | VDict "(string \<times> string) list"

text \<open>A Python dictionary with string keys, in insertion order.\<close>

type_synonym dict = "(string \<times> rval) list"
type_synonym sdict = "(string \<times> string) list"

text \<open>Python's truth value of an object, as tested by \<^verbatim>\<open>if x:\<close>.\<close>

fun truthy :: "rval \<Rightarrow> bool" where
  "truthy VNone = False"
| "truthy (VBool b) = b"
| "truthy (VInt i) = (i \<noteq> 0)"
| "truthy (VStr s) = (s \<noteq> [])"
| "truthy (VList xs) = (xs \<noteq> [])"
| "truthy (VDict d) = (d \<noteq> [])"

text \<open>
  A character stands for the code point of its number, so a string is a sequence of code
  points below 256. \<^verbatim>\<open>str.isspace\<close> on these: tab, line feed, vertical tab, form feed,
  carriage return, the four separators \<^verbatim>\<open>\x1c\<close> to \<^verbatim>\<open>\x1f\<close>, the space, the next-line
  control \<^verbatim>\<open>\x85\<close> and the no-break space \<^verbatim>\<open>\xa0\<close>.
\<close>

definition is_space :: "char \<Rightarrow> bool" where
  "is_space c =
     (let n = of_char c :: nat
      in (9 \<le> n \<and> n \<le> 13) \<or> (28 \<le> n \<and> n \<le> 32) \<or> n = 133 \<or> n = 160)"

text \<open>
  \<^verbatim>\<open>s.split()\<close> without arguments: the maximal runs of non-space characters. The first
  argument is the word read so far.
\<close>

fun split_ws :: "string \<Rightarrow> string \<Rightarrow> string list" where
  "split_ws acc [] = (if acc = [] then [] else [acc])"
| "split_ws acc (c # cs) =
     (if is_space c then (if acc = [] then split_ws [] cs else acc # split_ws [] cs)
      else split_ws (acc @ [c]) cs)"

definition py_split :: "string \<Rightarrow> string list" where
  "py_split s = split_ws [] s"

text \<open>\<^verbatim>\<open>sep.join(xs)\<close>.\<close>

fun py_join :: "string \<Rightarrow> string list \<Rightarrow> string" where
  "py_join sep [] = []"
| "py_join sep [x] = x"
| "py_join sep (x # y # ys) = x @ sep @ py_join sep (y # ys)"

text \<open>
  \<^verbatim>\<open>s.replace(old, new)\<close>: the occurrences of \<open>old\<close> are replaced from left to right
  without overlap. For an empty \<open>old\<close> Python puts \<open>new\<close> before every character and at
  the end.
\<close>

function replace_from :: "string \<Rightarrow> string \<Rightarrow> string \<Rightarrow> string" where
  "replace_from old new s =
     (if old = [] \<or> s = [] then s
      else if take (length old) s = old
        then new @ replace_from old new (drop (length old) s)
        else hd s # replace_from old new (tl s))"
  by pat_completeness auto
termination
  by (relation "measure (\<lambda>(old, new, s). length s)") (auto simp: neq_Nil_conv)

definition py_replace :: "string \<Rightarrow> string \<Rightarrow> string \<Rightarrow> string" where
  "py_replace old new s =
     (if old = [] then new @ concat (map (\<lambda>c. c # new) s) else replace_from old new s)"

text \<open>\<^verbatim>\<open>str(n)\<close> for an integer.\<close>

function str_nat :: "nat \<Rightarrow> string" where
  "str_nat n =
     (if n < 10 then [char_of (48 + n)]
      else str_nat (n div 10) @ [char_of (48 + n mod 10)])"
  by pat_completeness auto
termination
  by (relation "measure id") auto

definition str_int :: "int \<Rightarrow> string" where
  "str_int i = (if i < 0 then CHR ''-'' # str_nat (nat (- i)) else str_nat (nat i))"

text \<open>\<^verbatim>\<open>str(x)\<close> for a string or \<^verbatim>\<open>None\<close>, as \<^verbatim>\<open>%s\<close> and \<^verbatim>\<open>{}\<close> format it.\<close>

fun str_opt :: "string option \<Rightarrow> string" where
  "str_opt None = ''None''"
| "str_opt (Some s) = s"

text \<open>\<^verbatim>\<open>s.strip()\<close>.\<close>

definition py_strip :: "string \<Rightarrow> string" where
  "py_strip s = rev (dropWhile is_space (rev (dropWhile is_space s)))"

text \<open>\<^verbatim>\<open>os.path.basename\<close> and \<^verbatim>\<open>os.path.dirname\<close> (posixpath).\<close>

definition basename :: "string \<Rightarrow> string" where
  "basename p = rev (takeWhile (\<lambda>c. c \<noteq> CHR ''/'') (rev p))"

definition dirname :: "string \<Rightarrow> string" where
  "dirname p =
     (let head = rev (dropWhile (\<lambda>c. c \<noteq> CHR ''/'') (rev p))
      in if head \<noteq> [] \<and> list_ex (\<lambda>c. c \<noteq> CHR ''/'') head
         then rev (dropWhile (\<lambda>c. c = CHR ''/'') (rev head))
         else head)"

subsection \<open>Exceptions, actions, the world\<close>

datatype exn =
    UnregisteredHookError string
  | CalledProcessError int "string list"
  | OSError "string list"
  | IOError string
  | KeyError string
  | AttributeError string
  | IndexError
  | TypeError
  | Failure string

text \<open>
  \<open>Failure\<close> stands for any exception class of the collaborators that the script never
  names. \<open>str(e)\<close> of the dispatcher's exception is the event name it was raised with.
\<close>

fun is_UnregisteredHookError :: "exn \<Rightarrow> bool" where
  "is_UnregisteredHookError (UnregisteredHookError n) = True"
| "is_UnregisteredHookError e = False"

fun hook_name_of :: "exn \<Rightarrow> string" where
  "hook_name_of (UnregisteredHookError n) = n"
| "hook_name_of e = []"

text \<open>
  The actions a run performs on its surroundings. \<open>Helper\<close> is a call of a collaborator
  whose effect no property below looks into (package installation, file copies, the
  monitoring set-up): its name and its arguments.
\<close>

datatype event =
    Log string
  | StatusSet string string
  | WriteAll
  | CheckCall "string list"
  | Call "string list"
  | RelationSet "string option" dict
  | PeerStore string string
  | SetSharedSecret string
  | AssessStatus
  | Helper string "rval list"

record world =
  trace :: "event list"
  relation_data :: "string option \<Rightarrow> string \<Rightarrow> rval option"
  peer_data :: "string \<Rightarrow> string option"
  local_secret :: "string option"

type_synonym 'a hook = "world \<Rightarrow> (exn + 'a) \<times> world"

definition ret :: "'a \<Rightarrow> 'a hook" where
  "ret x w = (Inr x, w)"

definition throw :: "exn \<Rightarrow> 'a hook" where
  "throw e w = (Inl e, w)"

definition bind :: "'a hook \<Rightarrow> ('a \<Rightarrow> 'b hook) \<Rightarrow> 'b hook" where
  "bind m f w = (case m w of (Inl e, w') \<Rightarrow> (Inl e, w') | (Inr x, w') \<Rightarrow> f x w')"

definition seq :: "unit hook \<Rightarrow> 'a hook \<Rightarrow> 'a hook" where
  "seq m n = bind m (\<lambda>_. n)"

text \<open>Asking the surroundings a question does not change the world.\<close>

definition ask :: "(world \<Rightarrow> 'a) \<Rightarrow> 'a hook" where
  "ask f w = (Inr (f w), w)"

text \<open>\<^verbatim>\<open>try: m  except E as e: h(e)\<close>, where \<open>is_E\<close> recognises the class \<open>E\<close>.\<close>

definition try_except :: "'a hook \<Rightarrow> (exn \<Rightarrow> bool) \<Rightarrow> (exn \<Rightarrow> 'a hook) \<Rightarrow> 'a hook" where
  "try_except m is_E h w =
     (case m w of
        (Inl e, w') \<Rightarrow> (if is_E e then h e w' else (Inl e, w'))
      | (Inr x, w') \<Rightarrow> (Inr x, w'))"

text \<open>\<^verbatim>\<open>for x in xs: body(x)\<close>: an exception in the body leaves the loop.\<close>

fun for_each :: "'a list \<Rightarrow> ('a \<Rightarrow> unit hook) \<Rightarrow> unit hook" where
  "for_each [] body = ret ()"
| "for_each (x # xs) body = seq (body x) (for_each xs body)"

text \<open>\<^verbatim>\<open>if b: m\<close> without an \<^verbatim>\<open>else\<close>.\<close>

definition only_if :: "bool \<Rightarrow> unit hook \<Rightarrow> unit hook" where
  "only_if b m = (if b then m else ret ())"

definition record_event :: "event \<Rightarrow> world \<Rightarrow> world" where
  "record_event ev w = w\<lparr>trace := trace w @ [ev]\<rparr>"

text \<open>\<^verbatim>\<open>d[k]\<close> on a dictionary raises \<^verbatim>\<open>KeyError\<close> for a missing key.\<close>

definition dict_get :: "dict \<Rightarrow> string \<Rightarrow> rval hook" where
  "dict_get d k = (case map_of d k of None \<Rightarrow> throw (KeyError k) | Some v \<Rightarrow> ret v)"

subsection \<open>The environment\<close>

text \<open>
  What the script imports and this file does not define. The constants come from the
  charm's utility and context modules and from charm-helpers. The questions are answered
  from the current world. \<open>exit_status\<close> is the exit status of a command (\<open>None\<close>: the
  command could not be started); \<open>fails\<close> says whether a collaborator's action raises.
  The decorators \<^verbatim>\<open>restart_on_change(restart_map(), stopstart)\<close> and \<^verbatim>\<open>harden()\<close> and the
  DNS-HA parameter builder are taken as they come: any function of the right type. What
  the module does when it is loaded (\<^verbatim>\<open>register_configs()\<close>, \<^verbatim>\<open>restart_map()\<close>) has
  happened before the entry point runs and is part of the environment.
\<close>

record env =
  CEILOMETER_PORT :: int
  CEILOMETER_DB :: string
  CEILOMETER_SERVICE :: string
  CEILOMETER_ROLE :: string
  CEILOMETER_API_SYSTEMD_CONF :: string
  ADDRESS_TYPES :: "string list"
  PUBLIC :: string
  INTERNAL :: string
  ADMIN :: string
  config :: "world \<Rightarrow> string \<Rightarrow> rval"
  lsb_release :: "world \<Rightarrow> dict"
  get_packages :: "world \<Rightarrow> string list"
  filter_installed_packages :: "world \<Rightarrow> string list \<Rightarrow> string list"
  init_is_systemd :: "world \<Rightarrow> bool"
  run_in_apache :: "world \<Rightarrow> bool"
  complete_contexts :: "world \<Rightarrow> string list"
  is_unit_paused_set :: "world \<Rightarrow> bool"
  openstack_upgrade_available :: "world \<Rightarrow> string \<Rightarrow> bool"
  relation_ids :: "world \<Rightarrow> string \<Rightarrow> string list"
  related_units :: "world \<Rightarrow> string \<Rightarrow> string list"
  relation_get :: "world \<Rightarrow> string \<Rightarrow> string option \<Rightarrow> string option \<Rightarrow> string option"
  relation_get_all :: "world \<Rightarrow> sdict"
  isdir :: "world \<Rightarrow> string \<Rightarrow> bool"
  isfile :: "world \<Rightarrow> string \<Rightarrow> bool"
  path_exists :: "world \<Rightarrow> string \<Rightarrow> bool"
  read_file :: "world \<Rightarrow> string \<Rightarrow> exn + string"
  b64encode :: "string \<Rightarrow> string"
  os_release :: "world \<Rightarrow> string \<Rightarrow> string"
  release_ge :: "string \<Rightarrow> string \<Rightarrow> bool"
  is_elected_leader :: "world \<Rightarrow> string \<Rightarrow> bool"
  get_relation_ip :: "world \<Rightarrow> string \<Rightarrow> rval \<Rightarrow> string option"
  get_hacluster_config :: "world \<Rightarrow> exn + dict"
  get_iface_for_address :: "world \<Rightarrow> string \<Rightarrow> string option"
  get_netmask_for_address :: "world \<Rightarrow> string \<Rightarrow> string option"
  canonical_url :: "world \<Rightarrow> string \<Rightarrow> string"
  get_ceilometer_context :: "world \<Rightarrow> dict"
  get_nagios_hostname :: "world \<Rightarrow> string"
  get_nagios_unit_name :: "world \<Rightarrow> string"
  services :: "world \<Rightarrow> string list"
  generate_secret :: "world \<Rightarrow> string"
  exit_status :: "world \<Rightarrow> string list \<Rightarrow> int option"
  fails :: "world \<Rightarrow> event \<Rightarrow> exn option"
  restart_on_change :: "bool \<Rightarrow> unit hook \<Rightarrow> unit hook"
  harden :: "unit hook \<Rightarrow> unit hook"
  update_dns_ha_resource_params ::
    "string option \<Rightarrow> sdict \<Rightarrow> sdict \<Rightarrow> (sdict \<times> sdict) hook"

subsection \<open>The collaborators' actions\<close>

text \<open>
  An action is recorded, and then it returns or raises as the environment says. Writing a
  line to the log is recorded and always returns.
\<close>

definition perform :: "env \<Rightarrow> event \<Rightarrow> unit hook" where
  "perform env ev w =
     (case fails env w ev of
        Some e \<Rightarrow> (Inl e, record_event ev w)
      | None \<Rightarrow> (Inr (), record_event ev w))"

definition log :: "string \<Rightarrow> unit hook" where
  "log msg w = (Inr (), record_event (Log msg) w)"

definition status_set :: "env \<Rightarrow> string \<Rightarrow> string \<Rightarrow> unit hook" where
  "status_set env state msg = perform env (StatusSet state msg)"

definition helper :: "env \<Rightarrow> string \<Rightarrow> rval list \<Rightarrow> unit hook" where
  "helper env name args = perform env (Helper name args)"

definition write_all :: "env \<Rightarrow> unit hook" where
  "write_all env = perform env WriteAll"

definition assess_status :: "env \<Rightarrow> unit hook" where
  "assess_status env = perform env AssessStatus"

text \<open>
  \<^verbatim>\<open>relation_set\<close> writes the given keys of the unit's settings on a relation (\<open>None\<close>:
  the relation of the running hook) in one call; keys it is not given keep their value.
\<close>

definition store_settings :: "dict \<Rightarrow> (string \<Rightarrow> rval option) \<Rightarrow> (string \<Rightarrow> rval option)" where
  "store_settings settings m = fold (\<lambda>kv m'. m'(fst kv \<mapsto> snd kv)) settings m"

definition relation_set :: "env \<Rightarrow> string option \<Rightarrow> dict \<Rightarrow> unit hook" where
  "relation_set env rid settings w =
     (case fails env w (RelationSet rid settings) of
        Some e \<Rightarrow> (Inl e, record_event (RelationSet rid settings) w)
      | None \<Rightarrow>
          (Inr (), (record_event (RelationSet rid settings) w)
             \<lparr>relation_data := (relation_data w)
                (rid := store_settings settings (relation_data w rid))\<rparr>))"

text \<open>
  \<^verbatim>\<open>subprocess.check_call\<close> raises \<^verbatim>\<open>CalledProcessError\<close> on a non-zero exit status;
  \<^verbatim>\<open>subprocess.call\<close> returns the status. Both raise \<^verbatim>\<open>OSError\<close> when the command cannot
  be started.
\<close>

definition check_call :: "env \<Rightarrow> string list \<Rightarrow> unit hook" where
  "check_call env cmd w =
     (case exit_status env w cmd of
        None \<Rightarrow> (Inl (OSError cmd), record_event (CheckCall cmd) w)
      | Some rc \<Rightarrow>
          (if rc = 0 then (Inr (), record_event (CheckCall cmd) w)
           else (Inl (CalledProcessError rc cmd), record_event (CheckCall cmd) w)))"

definition call :: "env \<Rightarrow> string list \<Rightarrow> int hook" where
  "call env cmd w =
     (case exit_status env w cmd of
        None \<Rightarrow> (Inl (OSError cmd), record_event (Call cmd) w)
      | Some rc \<Rightarrow> (Inr rc, record_event (Call cmd) w))"

fun is_CalledProcessError :: "exn \<Rightarrow> bool" where
  "is_CalledProcessError (CalledProcessError rc cmd) = True"
| "is_CalledProcessError e = False"

text \<open>
  The peer storage and the shared secret are kept by code that is not in the hook script
  (\<^verbatim>\<open>peer_store\<close> and \<^verbatim>\<open>peer_retrieve\<close>, \<^verbatim>\<open>get_shared_secret\<close> and
  \<^verbatim>\<open>set_shared_secret\<close>). The four definitions below follow the specification's words.
\<close>

text \<open>
  Modelled from the spec: \<^verbatim>\<open>peer_store\<close>, the set of the key/value peer storage, "giving
  get/set of named values": the value is stored in the Relation Store under the key.
\<close>

definition peer_store :: "string \<Rightarrow> string \<Rightarrow> unit hook" where
  "peer_store key v w =
     (Inr (), (record_event (PeerStore key v) w)\<lparr>peer_data := (peer_data w)(key \<mapsto> v)\<rparr>)"

text \<open>
  Modelled from the spec: \<^verbatim>\<open>peer_retrieve\<close>, the get of the peer storage: the value stored
  under the key, or \<^verbatim>\<open>None\<close> when it is absent.
\<close>

definition peer_retrieve :: "string \<Rightarrow> string option hook" where
  "peer_retrieve key = ask (\<lambda>w. peer_data w key)"

text \<open>
  Modelled from the spec: \<^verbatim>\<open>set_shared_secret\<close>, by which the secret is "written into
  local files" and becomes the unit's local copy.
\<close>

definition set_shared_secret :: "string \<Rightarrow> unit hook" where
  "set_shared_secret secret w =
     (Inr (), (record_event (SetSharedSecret secret) w)\<lparr>local_secret := Some secret\<rparr>)"

text \<open>
  Modelled from the spec: \<^verbatim>\<open>get_shared_secret\<close>, the read of the local copy of the "single
  opaque token", which is "generated once" when it is absent and is then the local copy.
\<close>

definition get_shared_secret :: "env \<Rightarrow> string hook" where
  "get_shared_secret env w =
     (case local_secret w of
        Some s \<Rightarrow> (Inr s, w)
      | None \<Rightarrow> bind (set_shared_secret (generate_secret env w))
                  (\<lambda>_. ret (generate_secret env w)) w)"

subsection \<open>The handlers\<close>

text \<open>
  Each definition below is the body of the Python function of the same name. Where the
  source decorates a function, the decorators are applied where the function is
  registered and where another handler calls it.
\<close>

definition LEGACY_RES_KEY :: string where
  "LEGACY_RES_KEY = ''res_ceilometer_agent_central''"

definition LEGACY_OCF_FILE :: string where
  "LEGACY_OCF_FILE = ''/usr/lib/ocf/resource.d/openstack/ceilometer-agent-central''"

definition NEW_RES_KEY :: string where
  "NEW_RES_KEY = ''res_ceilometer_polling''"

definition install :: "env \<Rightarrow> unit hook" where
  "install env =
     seq (helper env ''execd_preinstall'' [])
    (bind (ask (\<lambda>w. config env w ''openstack-origin'')) (\<lambda>origin.
     bind (bind (ask (lsb_release env)) (\<lambda>rel. dict_get rel ''DISTRIB_CODENAME'')) (\<lambda>codename.
     let origin = (if codename = VStr ''precise'' \<and> origin = VStr ''distro''
                   then VStr ''cloud:precise-grizzly'' else origin) in
     seq (helper env ''configure_installation_source'' [origin])
    (bind (ask (\<lambda>w. filter_installed_packages env w (get_packages env w))) (\<lambda>packages.
     seq (only_if (packages \<noteq> [])
            (seq (status_set env ''maintenance'' ''Installing packages'')
            (seq (helper env ''apt_update'' [VBool True])
                 (helper env ''apt_install'' [VList packages, VBool True]))))
    (seq (helper env ''open_port'' [VInt (CEILOMETER_PORT env)])
    (seq (bind (ask (init_is_systemd env)) (\<lambda>systemd.
            only_if systemd
              (helper env ''mkdir'' [VStr (dirname (CEILOMETER_API_SYSTEMD_CONF env))])))
         (bind (ask (run_in_apache env)) (\<lambda>apache.
            only_if apache (helper env ''disable_package_apache_site'' []))))))))))"

definition amqp_joined :: "env \<Rightarrow> unit hook" where
  "amqp_joined env =
     bind (ask (\<lambda>w. config env w ''rabbit-user'')) (\<lambda>username.
     bind (ask (\<lambda>w. config env w ''rabbit-vhost'')) (\<lambda>vhost.
     relation_set env None [(''username'', username), (''vhost'', vhost)]))"

definition db_joined :: "env \<Rightarrow> unit hook" where
  "db_joined env = relation_set env None [(''ceilometer_database'', VStr (CEILOMETER_DB env))]"

definition configure_https :: "env \<Rightarrow> unit hook" where
  "configure_https env =
     seq (write_all env)
    (bind (ask (complete_contexts env)) (\<lambda>complete.
     seq (if ''https'' \<in> set complete
          then check_call env [''a2ensite'', ''openstack_https_frontend'']
          else check_call env [''a2dissite'', ''openstack_https_frontend''])
    (bind (ask (is_unit_paused_set env)) (\<lambda>paused.
     only_if (\<not> paused)
       (try_except (check_call env [''service'', ''apache2'', ''reload''])
          is_CalledProcessError
          (\<lambda>e. bind (call env [''service'', ''apache2'', ''restart'']) (\<lambda>rc. ret ())))))))"

definition open_read :: "env \<Rightarrow> rval \<Rightarrow> string hook" where
  "open_read env path w =
     (case path of VStr p \<Rightarrow> (read_file env w p, w) | _ \<Rightarrow> (Inl TypeError, w))"

definition ceilometer_joined :: "env \<Rightarrow> unit hook" where
  "ceilometer_joined env =
     bind (ask (get_ceilometer_context env)) (\<lambda>context.
     bind (if map_of context ''rabbit_ssl_ca'' \<noteq> None
           then bind (dict_get context ''rabbit_ssl_ca'') (\<lambda>path.
                bind (open_read env path) (\<lambda>data.
                ret (AList.update ''rabbit_ssl_ca'' (VStr (b64encode env data)) context)))
           else ret context) (\<lambda>context.
     bind (ask (\<lambda>w. relation_ids env w ''ceilometer-service'')) (\<lambda>relids.
     for_each relids (\<lambda>relid. relation_set env (Some relid) context))))"

definition keystone_joined :: "env \<Rightarrow> string option \<Rightarrow> unit hook" where
  "keystone_joined env relid =
     bind (ask (\<lambda>w. canonical_url env w (PUBLIC env) @ '':'' @ str_int (CEILOMETER_PORT env)))
       (\<lambda>public_url.
     bind (ask (\<lambda>w. canonical_url env w (ADMIN env) @ '':'' @ str_int (CEILOMETER_PORT env)))
       (\<lambda>admin_url.
     bind (ask (\<lambda>w. canonical_url env w (INTERNAL env) @ '':'' @ str_int (CEILOMETER_PORT env)))
       (\<lambda>internal_url.
     bind (ask (\<lambda>w. config env w ''region'')) (\<lambda>region.
     relation_set env relid
       [(''service'', VStr (CEILOMETER_SERVICE env)),
        (''public_url'', VStr public_url),
        (''admin_url'', VStr admin_url),
        (''internal_url'', VStr internal_url),
        (''requested_roles'', VStr (CEILOMETER_ROLE env)),
        (''region'', region)]))))"

definition any_changed :: "env \<Rightarrow> unit hook" where
  "any_changed env =
     seq (write_all env) (seq (configure_https env) (ceilometer_joined env))"

definition identity_service_relation_changed :: "env \<Rightarrow> unit hook" where
  "identity_service_relation_changed env =
     seq (write_all env)
    (seq (configure_https env)
    (seq (keystone_joined env None) (ceilometer_joined env)))"

definition amqp_departed :: "env \<Rightarrow> unit hook" where
  "amqp_departed env =
     bind (ask (complete_contexts env)) (\<lambda>complete.
     if ''amqp'' \<notin> set complete
     then log ''amqp relation incomplete. Peer not ready?''
     else write_all env)"

definition install_event_pipeline_setting :: "env \<Rightarrow> unit hook" where
  "install_event_pipeline_setting env =
     (let src_file = ''files/event_pipeline_alarm.yaml'';
          dest_file = ''/etc/ceilometer/event_pipeline_alarm.yaml''
      in seq (bind (ask (\<lambda>w. isdir env w (dirname dest_file))) (\<lambda>there.
                only_if (\<not> there) (helper env ''os.makedirs'' [VStr (dirname dest_file)])))
             (helper env ''shutil.copy'' [VStr src_file, VStr dest_file]))"

definition install_ceilometer_ocf :: "env \<Rightarrow> unit hook" where
  "install_ceilometer_ocf env =
     bind (ask (\<lambda>w. release_ge env (os_release env w ''ceilometer-common'') ''liberty''))
       (\<lambda>liberty.
     bind (if liberty
           then seq (bind (ask (\<lambda>w. isfile env w LEGACY_OCF_FILE)) (\<lambda>there.
                       only_if there (helper env ''os.remove'' [VStr LEGACY_OCF_FILE])))
                    (ret (''/usr/lib/ocf/resource.d/openstack/ceilometer-polling'',
                          ''ocf/openstack/ceilometer-polling''))
           else ret (LEGACY_OCF_FILE, ''ocf/openstack/ceilometer-agent-central''))
       (\<lambda>(dest_file, src_file).
     seq (bind (ask (\<lambda>w. isdir env w (dirname dest_file))) (\<lambda>there.
            only_if (\<not> there) (helper env ''os.makedirs'' [VStr (dirname dest_file)])))
         (bind (ask (\<lambda>w. path_exists env w dest_file)) (\<lambda>there.
            only_if (\<not> there)
              (seq (helper env ''shutil.copy'' [VStr src_file, VStr dest_file])
                   (helper env ''os.chmod'' [VStr dest_file, VInt 493]))))))"

text \<open>One round of the loop over \<^verbatim>\<open>ADDRESS_TYPES\<close> in \<^verbatim>\<open>cluster_joined\<close>.\<close>

definition address_setting :: "env \<Rightarrow> world \<Rightarrow> dict \<Rightarrow> string \<Rightarrow> dict" where
  "address_setting env w settings addr_type =
     (case get_relation_ip env w addr_type (config env w (''os-'' @ addr_type @ ''-network'')) of
        None \<Rightarrow> settings
      | Some address \<Rightarrow>
          (if address \<noteq> [] then AList.update (addr_type @ ''-address'') (VStr address) settings
           else settings))"

definition cluster_joined :: "env \<Rightarrow> string option \<Rightarrow> unit hook" where
  "cluster_joined env relation_id =
     seq (install_ceilometer_ocf env)
    (seq (bind (ask (\<lambda>w. is_elected_leader env w ''grp_ceilometer_vips'')) (\<lambda>leader.
            only_if leader
              (bind (get_shared_secret env) (\<lambda>secret. peer_store ''shared_secret'' secret))))
    (seq (write_all env)
    (bind (ask (\<lambda>w. foldl (address_setting env w) [] (ADDRESS_TYPES env))) (\<lambda>settings.
     bind (ask (\<lambda>w. get_relation_ip env w ''cluster'' VNone)) (\<lambda>private.
     relation_set env relation_id
       (AList.update ''private-address''
          (case private of None \<Rightarrow> VNone | Some a \<Rightarrow> VStr a) settings))))))"

definition cluster_changed :: "env \<Rightarrow> unit hook" where
  "cluster_changed env =
     bind (peer_retrieve ''shared_secret'') (\<lambda>shared_secret.
     seq (case shared_secret of
            None \<Rightarrow> log ''waiting for shared secret to be provided by leader''
          | Some secret \<Rightarrow>
              (if py_strip secret = []
               then log ''waiting for shared secret to be provided by leader''
               else bind (get_shared_secret env) (\<lambda>mine.
                      only_if (\<not> secret = mine) (set_shared_secret secret))))
         (write_all env))"

text \<open>
  The loop of \<^verbatim>\<open>ha_joined\<close> over the units of the amqp relations: every round assigns
  \<^verbatim>\<open>amqp_ssl_port\<close> anew.
\<close>

definition amqp_ssl_port :: "env \<Rightarrow> world \<Rightarrow> string option" where
  "amqp_ssl_port env w =
     foldl (\<lambda>port rel_id.
              foldl (\<lambda>port unit. relation_get env w ''ssl_port'' (Some unit) (Some rel_id))
                port (related_units env w rel_id))
       None (relation_ids env w ''amqp'')"

text \<open>
  \<^verbatim>\<open>ha_joined\<close>, piece by piece. \<open>liberty\<close> is the outcome of
  \<^verbatim>\<open>CompareOpenStackReleases(os_release('ceilometer-common')) >= 'liberty'\<close>. First the
  resource key and the resources to delete.
\<close>

definition res_key :: "bool \<Rightarrow> string" where
  "res_key liberty = (if liberty then NEW_RES_KEY else LEGACY_RES_KEY)"

definition delete_resources :: "bool \<Rightarrow> string list" where
  "delete_resources liberty = (if liberty then [LEGACY_RES_KEY] else [])"

text \<open>The dictionary \<^verbatim>\<open>resources\<close> as first built, with the OCF name derived from the key.\<close>

definition service_resources :: "string \<Rightarrow> sdict" where
  "service_resources RES_KEY =
     (let ocf_name = py_replace ''_'' ''-'' (py_replace ''res_'' [] RES_KEY)
      in AList.update RES_KEY (''ocf:openstack:'' @ ocf_name)
           [(''res_ceilometer_haproxy'', ''lsb:haproxy'')])"

text \<open>
  The dictionary \<^verbatim>\<open>resource_params\<close> after the test \<^verbatim>\<open>if amqp_ssl_port:\<close>, which only a
  non-empty string passes.
\<close>

definition service_resource_params :: "string \<Rightarrow> string option \<Rightarrow> sdict" where
  \<open>service_resource_params RES_KEY ssl_port =
     (let resource_params =
            AList.update RES_KEY ''op monitor interval="30s"''
              [(''res_ceilometer_haproxy'', ''op monitor interval="5s"'')]
      in case ssl_port of
           None \<Rightarrow> resource_params
         | Some port \<Rightarrow>
             (if port \<noteq> []
              then AList.update RES_KEY
                     (''params amqp_server_port="'' @ port @ ''" op monitor interval="30s"'')
                     resource_params
              else resource_params))\<close>

text \<open>
  One round of the loop over the configured virtual IPs, on the variables
  \<^verbatim>\<open>resources\<close>, \<^verbatim>\<open>resource_params\<close> and \<^verbatim>\<open>vip_group\<close>, and the whole loop.
\<close>

definition vip_step :: "env \<Rightarrow> world \<Rightarrow> sdict \<times> sdict \<times> string list \<Rightarrow> string
    \<Rightarrow> sdict \<times> sdict \<times> string list" where
  \<open>vip_step env w state vip =
     (case state of (resources, resource_params, vip_group) \<Rightarrow>
        (case get_iface_for_address env w vip of
           None \<Rightarrow> (resources, resource_params, vip_group)
         | Some iface \<Rightarrow>
             (let vip_key = ''res_ceilometer_'' @ iface @ ''_vip'' in
                (AList.update vip_key ''ocf:heartbeat:IPaddr2'' resources,
                 AList.update vip_key
                   (''params ip="'' @ vip @ ''" cidr_netmask="''
                      @ str_opt (get_netmask_for_address env w vip)
                      @ ''" nic="'' @ iface @ ''"'')
                   resource_params,
                 vip_group @ [vip_key]))))\<close>

definition vip_resources :: "env \<Rightarrow> world \<Rightarrow> sdict \<Rightarrow> sdict \<Rightarrow> string list
    \<Rightarrow> sdict \<times> sdict \<times> string list" where
  "vip_resources env w resources resource_params vips =
     foldl (vip_step env w) (resources, resource_params, []) vips"

text \<open>\<^verbatim>\<open>cluster_config['vip'].split()\<close>: only a string has the method.\<close>

definition split_value :: "rval \<Rightarrow> string list hook" where
  "split_value v = (case v of VStr s \<Rightarrow> ret (py_split s) | _ \<Rightarrow> throw (AttributeError ''split''))"

text \<open>The keyword arguments of the two \<^verbatim>\<open>relation_set\<close> calls.\<close>

definition group_settings :: "string list \<Rightarrow> dict" where
  "group_settings vip_group =
     [(''groups'', VDict [(''grp_ceilometer_vips'', py_join '' '' vip_group)])]"

definition ha_settings :: "rval \<Rightarrow> rval \<Rightarrow> sdict \<Rightarrow> sdict \<Rightarrow> string list \<Rightarrow> dict" where
  "ha_settings bindiface mcastport resources resource_params deletions =
     [(''init_services'', VDict [(''res_ceilometer_haproxy'', ''haproxy'')]),
      (''corosync_bindiface'', bindiface),
      (''corosync_mcastport'', mcastport),
      (''resources'', VDict resources),
      (''resource_params'', VDict resource_params),
      (''delete_resources'', VList deletions),
      (''clones'', VDict [(''cl_ceilometer_haproxy'', ''res_ceilometer_haproxy'')])]"

definition ha_joined :: "env \<Rightarrow> string option \<Rightarrow> unit hook" where
  "ha_joined env relation_id =
     bind (\<lambda>w. (get_hacluster_config env w, w)) (\<lambda>cluster_config.
     bind (ask (\<lambda>w. release_ge env (os_release env w ''ceilometer-common'') ''liberty''))
       (\<lambda>liberty.
     bind (ask (amqp_ssl_port env)) (\<lambda>ssl_port.
     bind (ask (\<lambda>w. config env w ''dns-ha'')) (\<lambda>dns_ha.
     bind (if truthy dns_ha
           then update_dns_ha_resource_params env relation_id
                  (service_resources (res_key liberty))
                  (service_resource_params (res_key liberty) ssl_port)
           else
             bind (dict_get cluster_config ''vip'') (\<lambda>vip.
             bind (split_value vip) (\<lambda>vips.
             bind (ask (\<lambda>w. vip_resources env w
                               (service_resources (res_key liberty))
                               (service_resource_params (res_key liberty) ssl_port) vips))
               (\<lambda>(resources, resource_params, vip_group).
             seq (only_if (length vip_group \<ge> 1)
                    (relation_set env relation_id (group_settings vip_group)))
                 (ret (resources, resource_params))))))
       (\<lambda>(resources, resource_params).
     bind (dict_get cluster_config ''ha-bindiface'') (\<lambda>bindiface.
     bind (dict_get cluster_config ''ha-mcastport'') (\<lambda>mcastport.
     relation_set env relation_id
       (ha_settings bindiface mcastport resources resource_params
          (delete_resources liberty)))))))))"

definition ha_changed :: "env \<Rightarrow> unit hook" where
  "ha_changed env =
     bind (ask (\<lambda>w. relation_get env w ''clustered'' None None)) (\<lambda>clustered.
     if (clustered = None \<or> clustered = Some [])
        \<or> clustered \<in> set [None, Some ''None'', Some []]
     then log ''ha_changed: hacluster subordinate not fully clustered.''
     else seq (log (''Cluster configured, notifying other services and updating ''
                    @ ''keystone endpoint configuration''))
              (bind (ask (\<lambda>w. relation_ids env w ''identity-service'')) (\<lambda>rids.
               for_each rids (\<lambda>rid. keystone_joined env (Some rid)))))"

definition identity_notifications_changed :: "env \<Rightarrow> unit hook" where
  "identity_notifications_changed env =
     bind (ask (relation_get_all env)) (\<lambda>notifications.
     if notifications = [] then ret ()
     else
       (let key = CEILOMETER_SERVICE env @ ''-endpoint-changed'' in
        only_if (map_of notifications key \<noteq> None)
          (seq (helper env ''service_restart'' [VStr ''ceilometer-alarm-evaluator''])
               (helper env ''service_restart'' [VStr ''ceilometer-alarm-notifier'']))))"

definition update_nrpe_config :: "env \<Rightarrow> unit hook" where
  "update_nrpe_config env =
     seq (helper env ''apt_install'' [VStr ''python-dbus''])
    (bind (ask (get_nagios_hostname env)) (\<lambda>hostname.
     bind (ask (get_nagios_unit_name env)) (\<lambda>current_unit.
     seq (helper env ''nrpe.NRPE'' [VStr hostname])
    (seq (helper env ''nrpe.copy_nrpe_checks'' [])
    (bind (ask (services env)) (\<lambda>svcs.
     seq (helper env ''nrpe.add_init_service_checks'' [VList svcs, VStr current_unit])
    (seq (helper env ''nrpe.add_haproxy_checks'' [VStr current_unit])
         (helper env ''nrpe_setup.write'' []))))))))"

definition config_changed :: "env \<Rightarrow> unit hook" where
  "config_changed env =
     seq (bind (ask (\<lambda>w. config env w ''action-managed-upgrade'')) (\<lambda>managed.
            only_if (\<not> truthy managed)
              (bind (ask (\<lambda>w. openstack_upgrade_available env w ''ceilometer-common''))
                 (\<lambda>available.
               only_if available
                 (seq (status_set env ''maintenance'' ''Upgrading to new OpenStack release'')
                      (helper env ''do_openstack_upgrade'' []))))))
    (seq (install_event_pipeline_setting env)
    (seq (update_nrpe_config env)
    (seq (write_all env)
    (seq (helper env ''reload_systemd'' [])
    (seq (ceilometer_joined env)
    (seq (configure_https env)
    (seq (bind (ask (\<lambda>w. relation_ids env w ''identity-service'')) (\<lambda>rids.
            for_each rids (\<lambda>rid. keystone_joined env (Some rid))))
    (seq (install_ceilometer_ocf env)
         (bind (ask (\<lambda>w. relation_ids env w ''ha'')) (\<lambda>rids.
            for_each rids (\<lambda>rid. ha_joined env (Some rid))))))))))))"

definition upgrade_charm :: "env \<Rightarrow> unit hook" where
  "upgrade_charm env =
     seq (harden env (install env))
    (seq (update_nrpe_config env)
    (seq (restart_on_change env False (any_changed env))
         (bind (ask (\<lambda>w. relation_ids env w ''cluster'')) (\<lambda>rids.
            for_each rids (\<lambda>rid. restart_on_change env True (cluster_joined env (Some rid)))))))"

definition update_status :: "env \<Rightarrow> unit hook" where
  "update_status env = log ''Updating status.''"

subsection \<open>The dispatch table and the script's entry point\<close>

text \<open>
  \<^verbatim>\<open>@hooks.hook(*hook_names)\<close> of charm-helpers registers the decorated function in a
  dictionary under every name it is given, then under the function's own name and, when
  that name has an underscore, under the name with dashes for underscores. A later
  registration of a name replaces an earlier one.
\<close>

definition hook :: "string list \<Rightarrow> string \<Rightarrow> unit hook
    \<Rightarrow> (string \<times> unit hook) list \<Rightarrow> (string \<times> unit hook) list" where
  "hook hook_names name decorated registered =
     fold (\<lambda>hook_name table. AList.update hook_name decorated table)
       (hook_names @ [name]
          @ (if CHR ''_'' \<in> set name then [py_replace ''_'' ''-'' name] else []))
       registered"

text \<open>
  The registrations of the script in the order of the source: the names given to
  \<^verbatim>\<open>@hooks.hook\<close>, the name of the function, and the function as the decorators below
  \<^verbatim>\<open>@hooks.hook\<close> have left it; the stop-start flag of \<^verbatim>\<open>restart_on_change\<close> is \<open>False\<close>
  unless given.
\<close>

definition hooks :: "env \<Rightarrow> (string \<times> unit hook) list" where
  "hooks env =
     fold (\<lambda>(hook_names, name, decorated). hook hook_names name decorated)
       [([''install.real''], ''install'', harden env (install env)),
        ([''amqp-relation-joined''], ''amqp_joined'', amqp_joined env),
        ([''shared-db-relation-joined''], ''db_joined'', db_joined env),
        ([''amqp-relation-changed'', ''shared-db-relation-changed'',
          ''shared-db-relation-departed''],
         ''any_changed'', restart_on_change env False (any_changed env)),
        ([''identity-service-relation-changed''], ''identity_service_relation_changed'',
         restart_on_change env False (identity_service_relation_changed env)),
        ([''amqp-relation-departed''], ''amqp_departed'',
         restart_on_change env False (amqp_departed env)),
        ([''config-changed''], ''config_changed'',
         restart_on_change env False (harden env (config_changed env))),
        ([''upgrade-charm''], ''upgrade_charm'', harden env (upgrade_charm env)),
        ([''cluster-relation-joined''], ''cluster_joined'',
         restart_on_change env True (cluster_joined env None)),
        ([''cluster-relation-changed'', ''cluster-relation-departed''], ''cluster_changed'',
         restart_on_change env True (cluster_changed env)),
        ([''ha-relation-joined''], ''ha_joined'', ha_joined env None),
        ([''ha-relation-changed''], ''ha_changed'', ha_changed env),
        ([''identity-service-relation-joined''], ''keystone_joined'', keystone_joined env None),
        ([''identity-notifications-relation-changed''], ''identity_notifications_changed'',
         identity_notifications_changed env),
        ([''ceilometer-service-relation-joined''], ''ceilometer_joined'', ceilometer_joined env),
        ([''nrpe-external-master-relation-joined'', ''nrpe-external-master-relation-changed''],
         ''update_nrpe_config'', update_nrpe_config env),
        ([''update-status''], ''update_status'', harden env (update_status env))]
       []"

text \<open>
  \<^verbatim>\<open>hooks.execute(sys.argv)\<close>: the event is the base name of the path the script was
  called by; a name without a handler raises \<^verbatim>\<open>UnregisteredHookError\<close>.
\<close>

definition execute :: "(string \<times> unit hook) list \<Rightarrow> string list \<Rightarrow> unit hook" where
  "execute registered args =
     (case args of
        [] \<Rightarrow> throw IndexError
      | path # rest \<Rightarrow>
          (case map_of registered (basename path) of
             Some handler \<Rightarrow> handler
           | None \<Rightarrow> throw (UnregisteredHookError (basename path))))"

definition main :: "env \<Rightarrow> string list \<Rightarrow> unit hook" where
  "main env argv =
     seq (try_except (execute (hooks env) argv)
            is_UnregisteredHookError
            (\<lambda>e. log (''Unknown hook '' @ hook_name_of e @ '' - skipping.'')))
         (assess_status env)"

text \<open>The exit status of the process: an exception that leaves the script makes it 1.\<close>

definition exit_code :: "(exn + unit) \<times> world \<Rightarrow> int" where
  "exit_code r = (case fst r of Inl e \<Rightarrow> 1 | Inr u \<Rightarrow> 0)"

subsection \<open>A concrete world and concrete environments\<close>

text \<open>
  The world before anything has happened, and an environment in which nothing is
  configured or related, every command exits with status 0, no action raises and the
  decorators add nothing to the handler. The examples below vary it field by field.
\<close>

definition empty_world :: world where
  "empty_world =
     \<lparr>trace = [], relation_data = (\<lambda>rid key. None), peer_data = (\<lambda>key. None),
      local_secret = None\<rparr>"

definition idle_env :: env where
  "idle_env =
     \<lparr>CEILOMETER_PORT = 8777,
      CEILOMETER_DB = ''ceilometer'',
      CEILOMETER_SERVICE = ''ceilometer'',
      CEILOMETER_ROLE = ''ResellerAdmin'',
      CEILOMETER_API_SYSTEMD_CONF = ''/etc/systemd/system/ceilometer-api.service.d/override.conf'',
      ADDRESS_TYPES = [],
      PUBLIC = ''public'',
      INTERNAL = ''int'',
      ADMIN = ''admin'',
      config = (\<lambda>w key. VNone),
      lsb_release = (\<lambda>w. [(''DISTRIB_CODENAME'', VStr ''xenial'')]),
      get_packages = (\<lambda>w. []),
      filter_installed_packages = (\<lambda>w packages. packages),
      init_is_systemd = (\<lambda>w. True),
      run_in_apache = (\<lambda>w. False),
      complete_contexts = (\<lambda>w. []),
      is_unit_paused_set = (\<lambda>w. False),
      openstack_upgrade_available = (\<lambda>w package. False),
      relation_ids = (\<lambda>w reltype. []),
      related_units = (\<lambda>w rid. []),
      relation_get = (\<lambda>w attribute unit rid. None),
      relation_get_all = (\<lambda>w. []),
      isdir = (\<lambda>w path. True),
      isfile = (\<lambda>w path. False),
      path_exists = (\<lambda>w path. True),
      read_file = (\<lambda>w path. Inl (IOError path)),
      b64encode = (\<lambda>data. data),
      os_release = (\<lambda>w package. ''mitaka''),
      release_ge = (\<lambda>release other. release \<noteq> ''kilo''),
      is_elected_leader = (\<lambda>w resource. False),
      get_relation_ip = (\<lambda>w interface cidr. None),
      get_hacluster_config = (\<lambda>w.
        Inr [(''ha-bindiface'', VStr ''eth0''), (''ha-mcastport'', VInt 5403),
             (''vip'', VStr ''10.0.0.10 192.168.7.10'')]),
      get_iface_for_address = (\<lambda>w address. None),
      get_netmask_for_address = (\<lambda>w address. None),
      canonical_url = (\<lambda>w endpoint. ''http://10.0.0.1''),
      get_ceilometer_context = (\<lambda>w. []),
      get_nagios_hostname = (\<lambda>w. ''juju-ceilometer-0''),
      get_nagios_unit_name = (\<lambda>w. ''ceilometer/0''),
      services = (\<lambda>w. []),
      generate_secret = (\<lambda>w. ''c0ffee''),
      exit_status = (\<lambda>w cmd. Some 0),
      fails = (\<lambda>w ev. None),
      restart_on_change = (\<lambda>stopstart handler. handler),
      harden = (\<lambda>handler. handler),
      update_dns_ha_resource_params = (\<lambda>rid resources resource_params.
        ret (resources, resource_params))\<rparr>"

text \<open>The cluster configuration is incomplete: \<^verbatim>\<open>get_hacluster_config\<close> raises.\<close>

definition no_ha_config_env :: env where
  "no_ha_config_env =
     idle_env\<lparr>get_hacluster_config := (\<lambda>w. Inl (Failure ''HAIncompleteConfig''))\<rparr>"

text \<open>
  Of the two configured virtual IPs, \<^verbatim>\<open>10.0.0.10\<close> is on the network of \<^verbatim>\<open>eth0\<close> and
  \<^verbatim>\<open>192.168.7.10\<close> is on no network of the unit.
\<close>

definition one_vip_env :: env where
  "one_vip_env =
     idle_env
       \<lparr>get_iface_for_address :=
          (\<lambda>w address. if address = ''10.0.0.10'' then Some ''eth0'' else None),
        get_netmask_for_address :=
          (\<lambda>w address. if address = ''10.0.0.10'' then Some ''255.255.255.0'' else None)\<rparr>"

text \<open>The same unit with the virtual IPs configured in the other order.\<close>

definition other_vip_env :: env where
  "other_vip_env =
     one_vip_env
       \<lparr>get_hacluster_config := (\<lambda>w.
          Inr [(''ha-bindiface'', VStr ''eth0''), (''ha-mcastport'', VInt 5403),
               (''vip'', VStr ''192.168.7.10 10.0.0.10'')])\<rparr>"

text \<open>Apache can neither be reloaded nor restarted: both commands exit with status 1.\<close>

definition apache_down_env :: env where
  "apache_down_env =
     idle_env
       \<lparr>exit_status :=
          (\<lambda>w cmd. if cmd = [''service'', ''apache2'', ''reload'']
                       \<or> cmd = [''service'', ''apache2'', ''restart'']
                    then Some 1 else Some 0)\<rparr>"

text \<open>The front-end site cannot be switched: \<^verbatim>\<open>a2dissite\<close> exits with status 1.\<close>

definition site_toggle_fails_env :: env where
  "site_toggle_fails_env =
     idle_env
       \<lparr>exit_status :=
          (\<lambda>w cmd. if cmd = [''a2dissite'', ''openstack_https_frontend''] then Some 1
                    else Some 0)\<rparr>"

text \<open>Only the reload fails; the restart succeeds.\<close>

definition reload_fails_env :: env where
  "reload_fails_env =
     idle_env
       \<lparr>exit_status :=
          (\<lambda>w cmd. if cmd = [''service'', ''apache2'', ''reload''] then Some 1 else Some 0)\<rparr>"

text \<open>
  The \<^verbatim>\<open>https\<close> fragment is complete until the front-end site has been switched once:
  the answer of \<^verbatim>\<open>complete_contexts\<close> changes between two calls.
\<close>

definition https_once_env :: env where
  "https_once_env =
     idle_env
       \<lparr>complete_contexts :=
          (\<lambda>w. if CheckCall [''a2ensite'', ''openstack_https_frontend''] \<in> set (trace w)
               then [''amqp''] else [''amqp'', ''https''])\<rparr>"

text \<open>
  Two units on one amqp relation; only the first advertises \<^verbatim>\<open>ssl_port\<close>. In the second
  environment only the last one does.
\<close>

definition amqp_first_ssl_env :: env where
  "amqp_first_ssl_env =
     one_vip_env
       \<lparr>relation_ids := (\<lambda>w reltype. if reltype = ''amqp'' then [''amqp:3''] else []),
        related_units :=
          (\<lambda>w rid. if rid = ''amqp:3'' then [''rabbitmq-server/0'', ''rabbitmq-server/1''] else []),
        relation_get :=
          (\<lambda>w attribute unit rid.
             if attribute = ''ssl_port'' \<and> unit = Some ''rabbitmq-server/0'' then Some ''5671''
             else None)\<rparr>"

definition amqp_last_ssl_env :: env where
  "amqp_last_ssl_env =
     amqp_first_ssl_env
       \<lparr>relation_get :=
          (\<lambda>w attribute unit rid.
             if attribute = ''ssl_port'' \<and> unit = Some ''rabbitmq-server/1'' then Some ''5671''
             else None)\<rparr>"

text \<open>A unit on the release before liberty.\<close>

definition kilo_env :: env where
  "kilo_env = idle_env\<lparr>os_release := (\<lambda>w package. ''kilo'')\<rparr>"

text \<open>The unit is the elected leader.\<close>

definition leader_env :: env where
  "leader_env = idle_env\<lparr>is_elected_leader := (\<lambda>w resource. True)\<rparr>"

text \<open>
  A follower whose local copy of the secret differs from the one in the peer storage, a
  leader that has published its secret, and a unit that has published a group of virtual
  IPs on the relation of the running hook.
\<close>

definition follower_world :: world where
  "follower_world =
     empty_world
       \<lparr>peer_data := (\<lambda>key. if key = ''shared_secret'' then Some ''s3cret'' else None),
        local_secret := Some ''stale''\<rparr>"

definition published_world :: world where
  "published_world =
     empty_world
       \<lparr>peer_data := (\<lambda>key. if key = ''shared_secret'' then Some ''s3cret'' else None),
        local_secret := Some ''s3cret''\<rparr>"

definition grouped_world :: world where
  "grouped_world =
     empty_world
       \<lparr>relation_data :=
          (\<lambda>rid key. if rid = None \<and> key = ''groups''
                      then Some (VDict [(''grp_ceilometer_vips'', ''res_ceilometer_eth0_vip'')])
                      else None)\<rparr>"

text \<open>
  DNS HA is configured. The parameter builder adds one DNS resource to the two maps it is
  handed and writes the group of host names to the relation.
\<close>

definition dns_ha_env :: env where
  \<open>dns_ha_env =
     idle_env
       \<lparr>config := (\<lambda>w key. if key = ''dns-ha'' then VBool True else VNone),
        update_dns_ha_resource_params :=
          (\<lambda>rid resources resource_params w.
             (Inr (resources @ [(''res_ceilometer_public_hostname'', ''ocf:maas:dns'')],
                   resource_params
                     @ [(''res_ceilometer_public_hostname'',
                         ''params fqdn="ceilometer.example.com" ip_address="10.0.0.1"'')]),
              record_event
                (RelationSet rid
                   [(''groups'',
                     VDict [(''grp_ceilometer_hostnames'', ''res_ceilometer_public_hostname'')])])
                w))\<rparr>\<close>

text \<open>The same with two amqp units, of which the last advertises \<^verbatim>\<open>ssl_port\<close>.\<close>

definition dns_ha_amqp_env :: env where
  "dns_ha_amqp_env =
     dns_ha_env
       \<lparr>relation_ids := (\<lambda>w reltype. if reltype = ''amqp'' then [''amqp:3''] else []),
        related_units :=
          (\<lambda>w rid. if rid = ''amqp:3'' then [''rabbitmq-server/0'', ''rabbitmq-server/1''] else []),
        relation_get :=
          (\<lambda>w attribute unit rid.
             if attribute = ''ssl_port'' \<and> unit = Some ''rabbitmq-server/1'' then Some ''5671''
             else None)\<rparr>"

subsection \<open>Notions the properties use\<close>

text \<open>
  The units of the amqp relations in the order in which the loop of \<^verbatim>\<open>ha_joined\<close>
  enumerates them, each with its relation.
\<close>

definition amqp_units :: "env \<Rightarrow> world \<Rightarrow> (string \<times> string) list" where
  "amqp_units env w =
     concat (map (\<lambda>rel_id. map (Pair rel_id) (related_units env w rel_id))
               (relation_ids env w ''amqp''))"

text \<open>The configured virtual IPs that have a local interface.\<close>

definition resolvable_vips :: "env \<Rightarrow> world \<Rightarrow> string list \<Rightarrow> string list" where
  "resolvable_vips env w vips = filter (\<lambda>vip. get_iface_for_address env w vip \<noteq> None) vips"

text \<open>Whether an action writes the key \<^verbatim>\<open>groups\<close> on a relation.\<close>

fun writes_groups :: "event \<Rightarrow> bool" where
  "writes_groups (RelationSet rid settings) = (map_of settings ''groups'' \<noteq> None)"
| "writes_groups ev = False"

text \<open>
  The unit's local copy of the shared secret and the secret in the peer storage are both
  the given one: the state a leader is in once it has published its secret.
\<close>

definition synced :: "string \<Rightarrow> world \<Rightarrow> bool" where
  "synced secret w =
     (peer_data w ''shared_secret'' = Some secret \<and> local_secret w = Some secret)"

section \<open>Properties\<close>

lemmas hook_defs = ret_def throw_def bind_def seq_def ask_def try_except_def only_if_def

lemmas action_defs = perform_def write_all_def helper_def status_set_def assess_status_def
  log_def check_call_def call_def relation_set_def

subsection \<open>The entry point\<close>

text \<open>The dictionary the registrations build, name by name.\<close>

lemma hooks_table:
  "hooks env =
     [(''install.real'', harden env (install env)),
      (''install'', harden env (install env)),
      (''amqp-relation-joined'', amqp_joined env),
      (''amqp_joined'', amqp_joined env),
      (''amqp-joined'', amqp_joined env),
      (''shared-db-relation-joined'', db_joined env),
      (''db_joined'', db_joined env),
      (''db-joined'', db_joined env),
      (''amqp-relation-changed'', restart_on_change env False (any_changed env)),
      (''shared-db-relation-changed'', restart_on_change env False (any_changed env)),
      (''shared-db-relation-departed'', restart_on_change env False (any_changed env)),
      (''any_changed'', restart_on_change env False (any_changed env)),
      (''any-changed'', restart_on_change env False (any_changed env)),
      (''identity-service-relation-changed'',
         restart_on_change env False (identity_service_relation_changed env)),
      (''identity_service_relation_changed'',
         restart_on_change env False (identity_service_relation_changed env)),
      (''amqp-relation-departed'', restart_on_change env False (amqp_departed env)),
      (''amqp_departed'', restart_on_change env False (amqp_departed env)),
      (''amqp-departed'', restart_on_change env False (amqp_departed env)),
      (''config-changed'', restart_on_change env False (harden env (config_changed env))),
      (''config_changed'', restart_on_change env False (harden env (config_changed env))),
      (''upgrade-charm'', harden env (upgrade_charm env)),
      (''upgrade_charm'', harden env (upgrade_charm env)),
      (''cluster-relation-joined'', restart_on_change env True (cluster_joined env None)),
      (''cluster_joined'', restart_on_change env True (cluster_joined env None)),
      (''cluster-joined'', restart_on_change env True (cluster_joined env None)),
      (''cluster-relation-changed'', restart_on_change env True (cluster_changed env)),
      (''cluster-relation-departed'', restart_on_change env True (cluster_changed env)),
      (''cluster_changed'', restart_on_change env True (cluster_changed env)),
      (''cluster-changed'', restart_on_change env True (cluster_changed env)),
      (''ha-relation-joined'', ha_joined env None),
      (''ha_joined'', ha_joined env None),
      (''ha-joined'', ha_joined env None),
      (''ha-relation-changed'', ha_changed env),
      (''ha_changed'', ha_changed env),
      (''ha-changed'', ha_changed env),
      (''identity-service-relation-joined'', keystone_joined env None),
      (''keystone_joined'', keystone_joined env None),
      (''keystone-joined'', keystone_joined env None),
      (''identity-notifications-relation-changed'', identity_notifications_changed env),
      (''identity_notifications_changed'', identity_notifications_changed env),
      (''identity-notifications-changed'', identity_notifications_changed env),
      (''ceilometer-service-relation-joined'', ceilometer_joined env),
      (''ceilometer_joined'', ceilometer_joined env),
      (''ceilometer-joined'', ceilometer_joined env),
      (''nrpe-external-master-relation-joined'', update_nrpe_config env),
      (''nrpe-external-master-relation-changed'', update_nrpe_config env),
      (''update_nrpe_config'', update_nrpe_config env),
      (''update-nrpe-config'', update_nrpe_config env),
      (''update-status'', harden env (update_status env)),
      (''update_status'', harden env (update_status env))]"
  by (simp add: hooks_def hook_def py_replace_def)


text \<open>
  Whatever the handlers are, the script reports the status after a handler that returned
  and after an event without a handler, which it logs.
\<close>

lemma main_reports_status:
  "execute (hooks env) argv w = (Inr (), w') \<Longrightarrow> main env argv w = assess_status env w'"
  "execute (hooks env) argv w = (Inl (UnregisteredHookError n), w') \<Longrightarrow>
     main env argv w
       = assess_status env (record_event (Log (''Unknown hook '' @ n @ '' - skipping.'')) w')"
  by (simp_all add: main_def hook_defs log_def)

text \<open>
  Claim C1 says that the status reporter still runs when a registered handler raises an
  unhandled exception. The script has no \<^verbatim>\<open>finally\<close>: \<^verbatim>\<open>assess_status\<close> follows the
  \<^verbatim>\<open>try\<close> statement, which catches \<^verbatim>\<open>UnregisteredHookError\<close> only. Here the handler of
  \<^verbatim>\<open>ha-relation-joined\<close> raises because the cluster configuration is incomplete; the
  process ends with a non-zero status and the status has not been assessed.
\<close>

theorem main_handler_raises_counterexample:
  "fst (main no_ha_config_env [''hooks/ha-relation-joined''] empty_world)
     = Inl (Failure ''HAIncompleteConfig'')
   \<and> exit_code (main no_ha_config_env [''hooks/ha-relation-joined''] empty_world) = 1
   \<and> AssessStatus
       \<notin> set (trace (snd (main no_ha_config_env [''hooks/ha-relation-joined''] empty_world)))"
  by (simp add: main_def execute_def hooks_table basename_def ha_joined_def hook_defs
      no_ha_config_env_def idle_env_def empty_world_def exit_code_def)

text \<open>
  Claim C1, amended: when the dispatch of the event raises an exception other than
  \<^verbatim>\<open>UnregisteredHookError\<close>, the exception leaves the script at once. The process ends
  with a non-zero status in the very world in which the handler raised: nothing runs
  after the handler, in particular not \<^verbatim>\<open>assess_status\<close>.
\<close>

theorem main_handler_raises:
  assumes "execute (hooks env) argv w = (Inl e, w')"
    and "\<not> is_UnregisteredHookError e"
  shows "main env argv w = (Inl e, w')
       \<and> exit_code (main env argv w) = 1
       \<and> trace (snd (main env argv w)) = trace w'"
  using assms by (simp add: main_def hook_defs exit_code_def)

text \<open>
  For instance, when \<^verbatim>\<open>a2dissite\<close> fails during \<^verbatim>\<open>amqp-relation-changed\<close>, the script
  stops after the three actions the handler got to.
\<close>

theorem main_handler_raises_witness:
  "execute (hooks site_toggle_fails_env) [''hooks/amqp-relation-changed''] empty_world
     = (Inl (CalledProcessError 1 [''a2dissite'', ''openstack_https_frontend'']),
        empty_world\<lparr>trace := [WriteAll, WriteAll,
                                CheckCall [''a2dissite'', ''openstack_https_frontend'']]\<rparr>)
   \<and> \<not> is_UnregisteredHookError
         (CalledProcessError 1 [''a2dissite'', ''openstack_https_frontend''])
   \<and> fst (main site_toggle_fails_env [''hooks/amqp-relation-changed''] empty_world)
       = Inl (CalledProcessError 1 [''a2dissite'', ''openstack_https_frontend''])
   \<and> exit_code (main site_toggle_fails_env [''hooks/amqp-relation-changed''] empty_world) = 1
   \<and> trace (snd (main site_toggle_fails_env [''hooks/amqp-relation-changed''] empty_world))
       = [WriteAll, WriteAll, CheckCall [''a2dissite'', ''openstack_https_frontend'']]"
proof -
  have run: "execute (hooks site_toggle_fails_env) [''hooks/amqp-relation-changed''] empty_world
     = (Inl (CalledProcessError 1 [''a2dissite'', ''openstack_https_frontend'']),
        empty_world\<lparr>trace := [WriteAll, WriteAll,
                                CheckCall [''a2dissite'', ''openstack_https_frontend'']]\<rparr>)"
    by (simp add: execute_def hooks_table basename_def any_changed_def configure_https_def
        hook_defs action_defs record_event_def site_toggle_fails_env_def idle_env_def
        empty_world_def)
  have other: "\<not> is_UnregisteredHookError
         (CalledProcessError 1 [''a2dissite'', ''openstack_https_frontend''])"
    by simp
  show ?thesis
    using run other main_handler_raises [OF run other] by (simp add: exit_code_def)
qed

subsection \<open>The HTTPS front end\<close>

text \<open>
  Claim C7: every call of \<^verbatim>\<open>configure_https\<close> asks \<^verbatim>\<open>complete_contexts\<close> anew, in the
  world its own \<^verbatim>\<open>write_all\<close> has left, and switches the front-end site accordingly:
  the action after \<^verbatim>\<open>write_all\<close> is \<^verbatim>\<open>a2ensite\<close> if \<^verbatim>\<open>https\<close> is among the complete
  fragments and \<^verbatim>\<open>a2dissite\<close> otherwise, and no later action of the call touches the
  site. The hypothesis is that \<^verbatim>\<open>write_all\<close> returns.
\<close>

theorem configure_https_toggle:
  assumes "fails env w WriteAll = None"
  shows "\<exists>rest. trace (snd (configure_https env w))
           = trace w @ WriteAll
               # CheckCall [if ''https'' \<in> set (complete_contexts env (record_event WriteAll w))
                            then ''a2ensite'' else ''a2dissite'', ''openstack_https_frontend'']
               # rest
         \<and> set rest \<subseteq> {CheckCall [''service'', ''apache2'', ''reload''],
                         Call [''service'', ''apache2'', ''restart'']}"
  using assms
  by (auto simp add: configure_https_def hook_defs write_all_def perform_def check_call_def
      call_def record_event_def
      split: option.splits sum.splits prod.splits if_splits exn.splits)

text \<open>
  Two calls in a row, in an environment where the fragment is complete at the first call
  and no longer at the second: the first enables the site, the second disables it.
\<close>

theorem configure_https_toggle_witness:
  "fails https_once_env empty_world WriteAll = None
   \<and> trace (snd (configure_https https_once_env empty_world))
       = [WriteAll, CheckCall [''a2ensite'', ''openstack_https_frontend''],
          CheckCall [''service'', ''apache2'', ''reload'']]
   \<and> fails https_once_env (snd (configure_https https_once_env empty_world)) WriteAll = None
   \<and> trace (snd (configure_https https_once_env
                    (snd (configure_https https_once_env empty_world))))
       = [WriteAll, CheckCall [''a2ensite'', ''openstack_https_frontend''],
          CheckCall [''service'', ''apache2'', ''reload''],
          WriteAll, CheckCall [''a2dissite'', ''openstack_https_frontend''],
          CheckCall [''service'', ''apache2'', ''reload'']]"
proof -
  have first: "fails https_once_env empty_world WriteAll = None"
    by (simp add: https_once_env_def idle_env_def)
  have second: "fails https_once_env (snd (configure_https https_once_env empty_world)) WriteAll
                  = None"
    by (simp add: https_once_env_def idle_env_def)
  show ?thesis
    using first second configure_https_toggle [OF first] configure_https_toggle [OF second]
    by (simp add: configure_https_def hook_defs action_defs record_event_def
        https_once_env_def idle_env_def empty_world_def)
qed

text \<open>
  Claim C3 says that a failure of the fallback restart propagates out of the handler.
  The restart is run with \<^verbatim>\<open>subprocess.call\<close>, which returns the exit status instead of
  raising, and the script drops the status. Here both the reload and the restart exit
  with status 1, and \<^verbatim>\<open>configure_https\<close> returns normally.
\<close>

theorem configure_https_restart_fails_counterexample:
  "exit_status apache_down_env empty_world [''service'', ''apache2'', ''restart''] = Some 1
   \<and> fst (configure_https apache_down_env empty_world) = Inr ()
   \<and> trace (snd (configure_https apache_down_env empty_world))
       = [WriteAll, CheckCall [''a2dissite'', ''openstack_https_frontend''],
          CheckCall [''service'', ''apache2'', ''reload''],
          Call [''service'', ''apache2'', ''restart'']]"
  by (simp add: configure_https_def hook_defs action_defs record_event_def
      apache_down_env_def idle_env_def empty_world_def)

text \<open>
  Claim C3, amended. Let \<^verbatim>\<open>write_all\<close> and the switch of the site have succeeded and the
  unit not be paused. Then \<^verbatim>\<open>service apache2 reload\<close> is attempted first, with
  \<^verbatim>\<open>check_call\<close>. If it exits with status 0 nothing more is run. If it exits with another
  status, \<^verbatim>\<open>service apache2 restart\<close> is run with \<^verbatim>\<open>call\<close>, and whatever status the
  restart exits with, \<^verbatim>\<open>configure_https\<close> returns normally. Only a command that cannot
  be started at all raises (\<^verbatim>\<open>OSError\<close>).
\<close>

theorem configure_https_reload_then_restart:
  assumes "fails env w WriteAll = None"
    and "w1 = record_event WriteAll w"
    and "toggle = (if ''https'' \<in> set (complete_contexts env w1)
                   then [''a2ensite'', ''openstack_https_frontend'']
                   else [''a2dissite'', ''openstack_https_frontend''])"
    and "exit_status env w1 toggle = Some 0"
    and "w2 = record_event (CheckCall toggle) w1"
    and "\<not> is_unit_paused_set env w2"
    and "w3 = record_event (CheckCall [''service'', ''apache2'', ''reload'']) w2"
  shows "configure_https env w =
           (case exit_status env w2 [''service'', ''apache2'', ''reload''] of
              None \<Rightarrow> (Inl (OSError [''service'', ''apache2'', ''reload'']), w3)
            | Some rc \<Rightarrow>
                if rc = 0 then (Inr (), w3)
                else (case exit_status env w3 [''service'', ''apache2'', ''restart''] of
                        None \<Rightarrow> (Inl (OSError [''service'', ''apache2'', ''restart'']),
                                  record_event (Call [''service'', ''apache2'', ''restart'']) w3)
                      | Some rc' \<Rightarrow>
                          (Inr (), record_event (Call [''service'', ''apache2'', ''restart'']) w3)))"
proof (cases "''https'' \<in> set (complete_contexts env w1)")
  case True
  with assms show ?thesis
    by (simp add: configure_https_def hook_defs write_all_def perform_def check_call_def call_def
      split: option.splits)
next
  case False
  with assms show ?thesis
    by (simp add: configure_https_def hook_defs write_all_def perform_def check_call_def call_def
      split: option.splits)
qed

text \<open>When only the reload fails, the restart follows it and the handler returns.\<close>

theorem configure_https_reload_then_restart_witness:
  "fails reload_fails_env empty_world WriteAll = None
   \<and> exit_status reload_fails_env (record_event WriteAll empty_world)
        [''a2dissite'', ''openstack_https_frontend''] = Some 0
   \<and> \<not> is_unit_paused_set reload_fails_env
         (record_event (CheckCall [''a2dissite'', ''openstack_https_frontend''])
            (record_event WriteAll empty_world))
   \<and> fst (configure_https reload_fails_env empty_world) = Inr ()
   \<and> trace (snd (configure_https reload_fails_env empty_world))
       = [WriteAll, CheckCall [''a2dissite'', ''openstack_https_frontend''],
          CheckCall [''service'', ''apache2'', ''reload''],
          Call [''service'', ''apache2'', ''restart'']]"
proof -
  have written: "fails reload_fails_env empty_world WriteAll = None"
    by (simp add: reload_fails_env_def idle_env_def)
  have switched: "exit_status reload_fails_env (record_event WriteAll empty_world)
        (if ''https'' \<in> set (complete_contexts reload_fails_env (record_event WriteAll empty_world))
         then [''a2ensite'', ''openstack_https_frontend'']
         else [''a2dissite'', ''openstack_https_frontend'']) = Some 0"
    by (simp add: reload_fails_env_def idle_env_def)
  have running: "\<not> is_unit_paused_set reload_fails_env
        (record_event (CheckCall
           (if ''https'' \<in> set (complete_contexts reload_fails_env
                                   (record_event WriteAll empty_world))
            then [''a2ensite'', ''openstack_https_frontend'']
            else [''a2dissite'', ''openstack_https_frontend'']))
           (record_event WriteAll empty_world))"
    by (simp add: reload_fails_env_def idle_env_def)
  show ?thesis
    using written switched running
      configure_https_reload_then_restart [OF written refl refl switched refl running refl]
    by (simp add: reload_fails_env_def idle_env_def record_event_def empty_world_def)
qed

subsection \<open>Incomplete dependencies\<close>

text \<open>
  The dispatcher runs \<^verbatim>\<open>amqp_departed\<close>, wrapped by the restart decorator, for the event
  \<^verbatim>\<open>amqp-relation-departed\<close>.
\<close>

lemma dispatch_amqp_departed:
  "execute (hooks env) [''hooks/amqp-relation-departed'']
     = restart_on_change env False (amqp_departed env)"
  by (simp add: execute_def hooks_table basename_def)

text \<open>
  Claim C8: when the \<^verbatim>\<open>amqp\<close> fragment is not among the complete ones,
  \<^verbatim>\<open>amqp_departed\<close> logs one message and returns without raising. That is all it does:
  it does not call \<^verbatim>\<open>write_all\<close> and it does not ask or try again.
\<close>

theorem amqp_departed_incomplete:
  assumes "''amqp'' \<notin> set (complete_contexts env w)"
  shows "amqp_departed env w
           = (Inr (), record_event (Log ''amqp relation incomplete. Peer not ready?'') w)
       \<and> WriteAll \<notin> set (drop (length (trace w)) (trace (snd (amqp_departed env w))))"
  using assms by (simp add: amqp_departed_def hook_defs log_def record_event_def)

theorem amqp_departed_incomplete_witness:
  "''amqp'' \<notin> set (complete_contexts idle_env empty_world)
   \<and> fst (amqp_departed idle_env empty_world) = Inr ()
   \<and> trace (snd (amqp_departed idle_env empty_world))
       = [Log ''amqp relation incomplete. Peer not ready?'']"
proof -
  have incomplete: "''amqp'' \<notin> set (complete_contexts idle_env empty_world)"
    by (simp add: idle_env_def)
  show ?thesis
    using incomplete amqp_departed_incomplete [OF incomplete]
    by (simp add: record_event_def empty_world_def)
qed

subsection \<open>The HA negotiation\<close>

text \<open>
  A virtual IP without a local interface leaves the three variables of the loop as they
  are, so the loop may as well run over the resolvable addresses only. The keys the loop
  adds end in \<^verbatim>\<open>_vip\<close>; it never touches another key.
\<close>

lemma vip_step_unresolved:
  "get_iface_for_address env w vip = None \<Longrightarrow> vip_step env w state vip = state"
  by (simp add: vip_step_def split: prod.splits)

lemma foldl_vip_step_filter:
  "foldl (vip_step env w) state vips
     = foldl (vip_step env w) state (filter (\<lambda>vip. get_iface_for_address env w vip \<noteq> None) vips)"
  by (induction vips arbitrary: state) (simp_all add: vip_step_unresolved)

lemma vip_resources_resolvable:
  "vip_resources env w resources resource_params vips
     = vip_resources env w resources resource_params (resolvable_vips env w vips)"
  unfolding vip_resources_def resolvable_vips_def by (rule foldl_vip_step_filter)

lemma update_new_key:
  "map_of al k = None \<Longrightarrow> AList.update k v al = al @ [(k, v)]"
  by (induction al) (auto split: if_splits)

lemma vip_step_other_key:
  assumes "last k \<noteq> CHR ''p''"
  shows "map_of (fst (vip_step env w state vip)) k = map_of (fst state) k
       \<and> map_of (fst (snd (vip_step env w state vip))) k = map_of (fst (snd state)) k"
proof (cases "get_iface_for_address env w vip")
  case None
  then show ?thesis by (simp add: vip_step_unresolved)
next
  case (Some iface)
  have "k \<noteq> ''res_ceilometer_'' @ iface @ ''_vip''"
    using assms by auto
  with Some show ?thesis
    by (cases state) (simp add: vip_step_def Let_def update_conv)
qed

lemma foldl_vip_step_other_key:
  assumes "last k \<noteq> CHR ''p''"
  shows "map_of (fst (foldl (vip_step env w) state vips)) k = map_of (fst state) k
       \<and> map_of (fst (snd (foldl (vip_step env w) state vips))) k = map_of (fst (snd state)) k"
  by (induction vips arbitrary: state) (simp_all add: vip_step_other_key [OF assms])

lemma ha_joined_non_dns:
  assumes "get_hacluster_config env w = Inr cfg"
    and "\<not> truthy (config env w ''dns-ha'')"
    and "map_of cfg ''vip'' = Some (VStr vips)"
    and "liberty = release_ge env (os_release env w ''ceilometer-common'') ''liberty''"
    and "vip_resources env w (service_resources (res_key liberty))
           (service_resource_params (res_key liberty) (amqp_ssl_port env w)) (py_split vips)
         = (resources, resource_params, vip_group)"
  shows "ha_joined env rid w =
           seq (only_if (vip_group \<noteq> []) (relation_set env rid (group_settings vip_group)))
             (bind (dict_get cfg ''ha-bindiface'') (\<lambda>bindiface.
              bind (dict_get cfg ''ha-mcastport'') (\<lambda>mcastport.
              relation_set env rid
                (ha_settings bindiface mcastport resources resource_params
                   (delete_resources liberty))))) w"
  using assms
  by (simp add: ha_joined_def ret_def throw_def bind_def seq_def ask_def only_if_def
      dict_get_def split_value_def Suc_le_eq split: prod.splits sum.splits)

lemma service_keys:
  "map fst (service_resources (res_key liberty)) = [''res_ceilometer_haproxy'', res_key liberty]"
  "map fst (service_resource_params (res_key liberty) port)
     = [''res_ceilometer_haproxy'', res_key liberty]"
  by (simp_all add: service_resources_def service_resource_params_def res_key_def
      NEW_RES_KEY_def LEGACY_RES_KEY_def Let_def split: option.splits)

lemma vip_key_is_new:
  "map_of (service_resources (res_key liberty)) (''res_ceilometer_'' @ iface @ ''_vip'') = None"
  "map_of (service_resource_params (res_key liberty) port) (''res_ceilometer_'' @ iface @ ''_vip'')
     = None"
proof -
  have "''res_ceilometer_'' @ iface @ ''_vip'' \<noteq> ''res_ceilometer_haproxy''"
    by (rule notI, drule arg_cong [where f = last]) simp
  moreover have "''res_ceilometer_'' @ iface @ ''_vip'' \<noteq> res_key liberty"
    by (rule notI, drule arg_cong [where f = last])
       (simp add: res_key_def NEW_RES_KEY_def LEGACY_RES_KEY_def split: if_splits)
  moreover have "fst ` set (service_resources (res_key liberty))
                   = {''res_ceilometer_haproxy'', res_key liberty}"
    using arg_cong [OF service_keys(1), where f = set, of liberty] by (simp del: append.simps)
  moreover have "fst ` set (service_resource_params (res_key liberty) port)
                   = {''res_ceilometer_haproxy'', res_key liberty}"
    using arg_cong [OF service_keys(2), where f = set, of liberty port]
    by (simp del: append.simps)
  ultimately show
    "map_of (service_resources (res_key liberty)) (''res_ceilometer_'' @ iface @ ''_vip'') = None"
    "map_of (service_resource_params (res_key liberty) port)
       (''res_ceilometer_'' @ iface @ ''_vip'') = None"
    by (simp_all add: map_of_eq_None_iff del: append.simps)
qed

lemma vip_resources_single:
  assumes "resolvable_vips env w vips = [vip]"
    and "get_iface_for_address env w vip = Some iface"
  shows \<open>vip_resources env w (service_resources (res_key liberty))
           (service_resource_params (res_key liberty) port) vips
         = (service_resources (res_key liberty)
              @ [(''res_ceilometer_'' @ iface @ ''_vip'', ''ocf:heartbeat:IPaddr2'')],
            service_resource_params (res_key liberty) port
              @ [(''res_ceilometer_'' @ iface @ ''_vip'',
                  ''params ip="'' @ vip @ ''" cidr_netmask="''
                    @ str_opt (get_netmask_for_address env w vip)
                    @ ''" nic="'' @ iface @ ''"'')],
            [''res_ceilometer_'' @ iface @ ''_vip''])\<close>
  apply (subst vip_resources_resolvable)
  apply (simp only: assms(1))
  apply (simp add: vip_resources_def vip_step_def assms(2) Let_def
      update_new_key [OF vip_key_is_new(1)] update_new_key [OF vip_key_is_new(2)]
      del: append.simps)
  done

text \<open>
  The loop over the amqp units keeps the answer of the unit it asked last, and a run of
  \<^verbatim>\<open>ha_joined\<close> that returns normally ends with the write of all the settings.
\<close>

lemma foldl_last_wins:
  "foldl (\<lambda>acc x. f x) a xs = (if xs = [] then a else f (last xs))"
  by (induction xs arbitrary: a) simp_all

lemma amqp_ssl_port_last:
  "amqp_ssl_port env w =
     (if amqp_units env w = [] then None
      else relation_get env w ''ssl_port'' (Some (snd (last (amqp_units env w))))
             (Some (fst (last (amqp_units env w)))))"
proof -
  have "foldl (\<lambda>port rel_id.
              foldl (\<lambda>port unit. relation_get env w ''ssl_port'' (Some unit) (Some rel_id))
                port (related_units env w rel_id)) a rids
        = (let units = concat (map (\<lambda>rel_id. map (Pair rel_id) (related_units env w rel_id)) rids)
           in if units = [] then a
              else relation_get env w ''ssl_port'' (Some (snd (last units))) (Some (fst (last units))))"
    for a rids
  proof (induction rids rule: rev_induct)
    case Nil
    then show ?case by simp
  next
    case (snoc r rids)
    then show ?case
      by (simp add: foldl_last_wins Let_def last_map)
  qed
  then show ?thesis
    by (simp add: amqp_ssl_port_def amqp_units_def Let_def)
qed

lemma ha_joined_non_dns_success:
  assumes "ha_joined env rid w = (Inr (), w')"
    and "\<not> truthy (config env w ''dns-ha'')"
    and "liberty = release_ge env (os_release env w ''ceilometer-common'') ''liberty''"
  shows "\<exists>cfg vips bindiface mcastport.
           get_hacluster_config env w = Inr cfg \<and> map_of cfg ''vip'' = Some (VStr vips)
         \<and> last (trace w')
             = RelationSet rid
                 (ha_settings bindiface mcastport
                    (fst (vip_resources env w (service_resources (res_key liberty))
                            (service_resource_params (res_key liberty) (amqp_ssl_port env w))
                            (py_split vips)))
                    (fst (snd (vip_resources env w (service_resources (res_key liberty))
                            (service_resource_params (res_key liberty) (amqp_ssl_port env w))
                            (py_split vips))))
                    (delete_resources liberty))"
  using assms
  apply (auto simp add: ha_joined_def ret_def throw_def bind_def seq_def ask_def only_if_def
      dict_get_def split_value_def relation_set_def record_event_def
      split: prod.splits sum.splits option.splits rval.splits if_splits)
  apply blast+
  done

lemma vip_resources_other_key:
  assumes "last k \<noteq> CHR ''p''"
  shows "map_of (fst (vip_resources env w resources resource_params vips)) k = map_of resources k"
    and "map_of (fst (snd (vip_resources env w resources resource_params vips))) k
           = map_of resource_params k"
  using foldl_vip_step_other_key [OF assms, of env w "(resources, resource_params, [])" vips]
  by (simp_all add: vip_resources_def)

text \<open>The first maps, the deletion list and the two payloads, written out.\<close>

lemma service_resources_explicit:
  "service_resources (res_key liberty)
     = [(''res_ceilometer_haproxy'', ''lsb:haproxy''),
        (if liberty then ''res_ceilometer_polling'' else ''res_ceilometer_agent_central'',
         if liberty then ''ocf:openstack:ceilometer-polling''
         else ''ocf:openstack:ceilometer-agent-central'')]"
  by (simp add: service_resources_def res_key_def py_replace_def NEW_RES_KEY_def
      LEGACY_RES_KEY_def Let_def)

lemma service_resource_params_explicit:
  \<open>service_resource_params (res_key liberty) ssl_port
     = [(''res_ceilometer_haproxy'', ''op monitor interval="5s"''),
        (if liberty then ''res_ceilometer_polling'' else ''res_ceilometer_agent_central'',
         case ssl_port of
           None \<Rightarrow> ''op monitor interval="30s"''
         | Some port \<Rightarrow>
             if port = [] then ''op monitor interval="30s"''
             else ''params amqp_server_port="'' @ port @ ''" op monitor interval="30s"'')]\<close>
  by (simp add: service_resource_params_def res_key_def NEW_RES_KEY_def LEGACY_RES_KEY_def
      Let_def split: option.splits)

lemma delete_resources_explicit:
  "delete_resources liberty = (if liberty then [''res_ceilometer_agent_central''] else [])"
  by (simp add: delete_resources_def LEGACY_RES_KEY_def)

text \<open>With DNS HA the two maps go through the parameter builder before they are written.\<close>

lemma ha_joined_dns:
  assumes "get_hacluster_config env w = Inr cfg"
    and "truthy (config env w ''dns-ha'')"
    and "liberty = release_ge env (os_release env w ''ceilometer-common'') ''liberty''"
    and "update_dns_ha_resource_params env rid (service_resources (res_key liberty))
           (service_resource_params (res_key liberty) (amqp_ssl_port env w)) w
         = (Inr (resources, resource_params), w1)"
  shows "ha_joined env rid w =
           bind (dict_get cfg ''ha-bindiface'') (\<lambda>bindiface.
           bind (dict_get cfg ''ha-mcastport'') (\<lambda>mcastport.
           relation_set env rid
             (ha_settings bindiface mcastport resources resource_params
                (delete_resources liberty)))) w1"
  using assms
  by (simp add: ha_joined_def ret_def throw_def bind_def seq_def ask_def)

lemma ha_joined_dns_success:
  assumes "ha_joined env rid w = (Inr (), w')"
    and "truthy (config env w ''dns-ha'')"
    and "liberty = release_ge env (os_release env w ''ceilometer-common'') ''liberty''"
  shows "\<exists>resources resource_params w1 bindiface mcastport.
           update_dns_ha_resource_params env rid (service_resources (res_key liberty))
             (service_resource_params (res_key liberty) (amqp_ssl_port env w)) w
           = (Inr (resources, resource_params), w1)
         \<and> last (trace w')
             = RelationSet rid
                 (ha_settings bindiface mcastport resources resource_params
                    (delete_resources liberty))"
  using assms
  apply (auto simp add: ha_joined_def ret_def throw_def bind_def seq_def ask_def only_if_def
      dict_get_def split_value_def relation_set_def record_event_def
      split: prod.splits sum.splits option.splits rval.splits if_splits)
  apply blast+
  done

text \<open>What a write that returns leaves in the unit's settings on the relation.\<close>

lemma relation_set_stores:
  assumes "fails env w (RelationSet rid settings) = None"
  shows "relation_set env rid settings w
           = (Inr (), (record_event (RelationSet rid settings) w)
                \<lparr>relation_data := (relation_data w)
                   (rid := store_settings settings (relation_data w rid))\<rparr>)"
  using assms by (simp add: relation_set_def)

lemma store_settings_payload:
  "store_settings (ha_settings bindiface mcastport resources resource_params deletions) m
     ''resources'' = Some (VDict resources)"
  "store_settings (ha_settings bindiface mcastport resources resource_params deletions) m
     ''resource_params'' = Some (VDict resource_params)"
  "store_settings (ha_settings bindiface mcastport resources resource_params deletions) m
     ''delete_resources'' = Some (VList deletions)"
  "store_settings (ha_settings bindiface mcastport resources resource_params deletions) m
     ''groups'' = m ''groups''"
  by (simp_all add: store_settings_def ha_settings_def)

text \<open>
  Claim C2 says that the resource maps, the deletion list and the group of virtual IPs go
  to the relation in one single write. They go in two: \<^verbatim>\<open>groups\<close> has a
  \<^verbatim>\<open>relation_set\<close> call of its own, before the one with all the other keys, which does not
  carry \<^verbatim>\<open>groups\<close>. Here one of the two configured virtual IPs has a local interface.
\<close>

theorem ha_joined_single_write_counterexample:
  \<open>trace (snd (ha_joined one_vip_env None empty_world))
     = [RelationSet None
          [(''groups'', VDict [(''grp_ceilometer_vips'', ''res_ceilometer_eth0_vip'')])],
        RelationSet None
          [(''init_services'', VDict [(''res_ceilometer_haproxy'', ''haproxy'')]),
           (''corosync_bindiface'', VStr ''eth0''),
           (''corosync_mcastport'', VInt 5403),
           (''resources'',
            VDict [(''res_ceilometer_haproxy'', ''lsb:haproxy''),
                   (''res_ceilometer_polling'', ''ocf:openstack:ceilometer-polling''),
                   (''res_ceilometer_eth0_vip'', ''ocf:heartbeat:IPaddr2'')]),
           (''resource_params'',
            VDict [(''res_ceilometer_haproxy'', ''op monitor interval="5s"''),
                   (''res_ceilometer_polling'', ''op monitor interval="30s"''),
                   (''res_ceilometer_eth0_vip'',
                    ''params ip="10.0.0.10" cidr_netmask="255.255.255.0" nic="eth0"'')]),
           (''delete_resources'', VList [''res_ceilometer_agent_central'']),
           (''clones'', VDict [(''cl_ceilometer_haproxy'', ''res_ceilometer_haproxy'')])]]\<close>
  by (simp add: ha_joined_def hook_defs action_defs record_event_def dict_get_def
      split_value_def py_split_def is_space_def vip_resources_def vip_step_def
      amqp_ssl_port_def service_resources_def service_resource_params_def res_key_def
      delete_resources_def group_settings_def ha_settings_def py_replace_def
      NEW_RES_KEY_def LEGACY_RES_KEY_def one_vip_env_def idle_env_def empty_world_def
      Let_def)

text \<open>
  Claim C2, amended. Let the cluster configuration be there and \<^verbatim>\<open>relation_set\<close> return.
  Then \<^verbatim>\<open>ha_joined\<close> returns normally and its last action is one write that carries
  \<^verbatim>\<open>init_services\<close>, the two corosync settings, \<^verbatim>\<open>resources\<close>, \<^verbatim>\<open>resource_params\<close>,
  \<^verbatim>\<open>delete_resources\<close> and \<^verbatim>\<open>clones\<close> together, and not \<^verbatim>\<open>groups\<close>; after it the unit's
  settings on the relation hold the two maps and the deletion list. Without DNS HA the
  maps are those the loop over the virtual IPs has built from the two service entries,
  and the group of virtual IPs is written before, in a write of its own, and only if the
  loop has found a virtual IP with a local interface. With DNS HA the two service entries
  are handed to \<^verbatim>\<open>update_dns_ha_resource_params\<close>, the last write carries the maps it hands
  back, and a group is written only by that helper.
\<close>

theorem ha_joined_two_writes:
  assumes "get_hacluster_config env w = Inr cfg"
    and "map_of cfg ''ha-bindiface'' = Some bindiface"
    and "map_of cfg ''ha-mcastport'' = Some mcastport"
    and "\<forall>w' settings. fails env w' (RelationSet rid settings) = None"
    and "liberty = release_ge env (os_release env w ''ceilometer-common'') ''liberty''"
    and "key = (if liberty then ''res_ceilometer_polling'' else ''res_ceilometer_agent_central'')"
    and "ocf = (if liberty then ''ocf:openstack:ceilometer-polling''
                else ''ocf:openstack:ceilometer-agent-central'')"
    and \<open>service_params =
           (case amqp_ssl_port env w of
              None \<Rightarrow> ''op monitor interval="30s"''
            | Some port \<Rightarrow>
                if port = [] then ''op monitor interval="30s"''
                else ''params amqp_server_port="'' @ port @ ''" op monitor interval="30s"'')\<close>
    and "payload =
           [(''init_services'', VDict [(''res_ceilometer_haproxy'', ''haproxy'')]),
            (''corosync_bindiface'', bindiface),
            (''corosync_mcastport'', mcastport),
            (''resources'', VDict resources),
            (''resource_params'', VDict resource_params),
            (''delete_resources'',
             VList (if liberty then [''res_ceilometer_agent_central''] else [])),
            (''clones'', VDict [(''cl_ceilometer_haproxy'', ''res_ceilometer_haproxy'')])]"
  shows \<open>(\<not> truthy (config env w ''dns-ha'') \<and> map_of cfg ''vip'' = Some (VStr vips)
           \<and> vip_resources env w
                [(''res_ceilometer_haproxy'', ''lsb:haproxy''), (key, ocf)]
                [(''res_ceilometer_haproxy'', ''op monitor interval="5s"''),
                 (key, service_params)]
                (py_split vips)
              = (resources, resource_params, vip_group)
         \<longrightarrow> fst (ha_joined env rid w) = Inr ()
             \<and> trace (snd (ha_joined env rid w))
                 = trace w
                   @ (if vip_group = [] then []
                      else [RelationSet rid
                              [(''groups'',
                                VDict [(''grp_ceilometer_vips'', py_join '' '' vip_group)])]])
                   @ [RelationSet rid payload]
             \<and> map_of resources ''res_ceilometer_haproxy'' = Some ''lsb:haproxy''
             \<and> map_of resources key = Some ocf
             \<and> map_of resource_params ''res_ceilometer_haproxy''
                 = Some ''op monitor interval="5s"''
             \<and> map_of resource_params key = Some service_params
             \<and> relation_data (snd (ha_joined env rid w)) rid ''resources''
                 = Some (VDict resources)
             \<and> relation_data (snd (ha_joined env rid w)) rid ''resource_params''
                 = Some (VDict resource_params)
             \<and> relation_data (snd (ha_joined env rid w)) rid ''delete_resources''
                 = Some (VList (if liberty then [''res_ceilometer_agent_central''] else [])))
       \<and> (truthy (config env w ''dns-ha'')
           \<and> update_dns_ha_resource_params env rid
                [(''res_ceilometer_haproxy'', ''lsb:haproxy''), (key, ocf)]
                [(''res_ceilometer_haproxy'', ''op monitor interval="5s"''),
                 (key, service_params)]
                w
              = (Inr (resources, resource_params), built)
         \<longrightarrow> fst (ha_joined env rid w) = Inr ()
             \<and> trace (snd (ha_joined env rid w)) = trace built @ [RelationSet rid payload]
             \<and> relation_data (snd (ha_joined env rid w)) rid ''resources''
                 = Some (VDict resources)
             \<and> relation_data (snd (ha_joined env rid w)) rid ''resource_params''
                 = Some (VDict resource_params)
             \<and> relation_data (snd (ha_joined env rid w)) rid ''delete_resources''
                 = Some (VList (if liberty then [''res_ceilometer_agent_central''] else [])))
       \<and> map_of payload ''groups'' = None\<close>
proof -
  have first: "service_resources (res_key liberty)
                 = [(''res_ceilometer_haproxy'', ''lsb:haproxy''), (key, ocf)]"
    unfolding assms(6,7) by (rule service_resources_explicit)
  have params: \<open>service_resource_params (res_key liberty) (amqp_ssl_port env w)
                 = [(''res_ceilometer_haproxy'', ''op monitor interval="5s"''),
                    (key, service_params)]\<close>
    unfolding assms(6,8) by (rule service_resource_params_explicit)
  have payload: "ha_settings bindiface mcastport resources resource_params
                   (delete_resources liberty) = payload"
    by (simp add: ha_settings_def delete_resources_explicit assms(9))
  have bindiface: "dict_get cfg ''ha-bindiface'' = ret bindiface"
    and mcastport: "dict_get cfg ''ha-mcastport'' = ret mcastport"
    using assms(2,3) by (simp_all add: dict_get_def)
  have writes: "fails env w' (RelationSet rid settings) = None" for w' settings
    using assms(4) by simp
  have stored: "store_settings payload m ''resources'' = Some (VDict resources)"
    "store_settings payload m ''resource_params'' = Some (VDict resource_params)"
    "store_settings payload m ''delete_resources''
       = Some (VList (if liberty then [''res_ceilometer_agent_central''] else []))" for m
    unfolding payload [symmetric]
    by (simp_all add: store_settings_payload delete_resources_explicit)
  have vips: \<open>fst (ha_joined env rid w) = Inr ()
             \<and> trace (snd (ha_joined env rid w))
                 = trace w
                   @ (if vip_group = [] then []
                      else [RelationSet rid
                              [(''groups'',
                                VDict [(''grp_ceilometer_vips'', py_join '' '' vip_group)])]])
                   @ [RelationSet rid payload]
             \<and> map_of resources ''res_ceilometer_haproxy'' = Some ''lsb:haproxy''
             \<and> map_of resources key = Some ocf
             \<and> map_of resource_params ''res_ceilometer_haproxy''
                 = Some ''op monitor interval="5s"''
             \<and> map_of resource_params key = Some service_params
             \<and> relation_data (snd (ha_joined env rid w)) rid ''resources''
                 = Some (VDict resources)
             \<and> relation_data (snd (ha_joined env rid w)) rid ''resource_params''
                 = Some (VDict resource_params)
             \<and> relation_data (snd (ha_joined env rid w)) rid ''delete_resources''
                 = Some (VList (if liberty then [''res_ceilometer_agent_central''] else []))\<close>
    if mode: "\<not> truthy (config env w ''dns-ha'')"
      and vip: "map_of cfg ''vip'' = Some (VStr vips)"
      and loop: "vip_resources env w (service_resources (res_key liberty))
                   (service_resource_params (res_key liberty) (amqp_ssl_port env w))
                   (py_split vips)
                 = (resources, resource_params, vip_group)"
  proof -
    have service: "last key \<noteq> CHR ''p''"
      by (simp add: assms(6))
    have haproxy: "last ''res_ceilometer_haproxy'' \<noteq> CHR ''p''"
      by simp
    have kept: "map_of resources k = map_of (service_resources (res_key liberty)) k"
      "map_of resource_params k
         = map_of (service_resource_params (res_key liberty) (amqp_ssl_port env w)) k"
      if "last k \<noteq> CHR ''p''" for k
      using vip_resources_other_key [OF that, of env w "service_resources (res_key liberty)"
          "service_resource_params (res_key liberty) (amqp_ssl_port env w)" "py_split vips"]
      by (simp_all add: loop)
    have distinct: "key \<noteq> ''res_ceilometer_haproxy''"
      by (simp add: assms(6))
    show ?thesis
      unfolding ha_joined_non_dns [OF assms(1) mode vip assms(5) loop]
      using distinct
      by (simp add: kept [OF service] kept [OF haproxy] first params
          seq_def only_if_def bind_def ret_def bindiface mcastport payload
          relation_set_stores [OF writes] record_event_def group_settings_def stored)
  qed
  have dns: "fst (ha_joined env rid w) = Inr ()
             \<and> trace (snd (ha_joined env rid w)) = trace built @ [RelationSet rid payload]
             \<and> relation_data (snd (ha_joined env rid w)) rid ''resources''
                 = Some (VDict resources)
             \<and> relation_data (snd (ha_joined env rid w)) rid ''resource_params''
                 = Some (VDict resource_params)
             \<and> relation_data (snd (ha_joined env rid w)) rid ''delete_resources''
                 = Some (VList (if liberty then [''res_ceilometer_agent_central''] else []))"
    if mode: "truthy (config env w ''dns-ha'')"
      and handed: "update_dns_ha_resource_params env rid (service_resources (res_key liberty))
                    (service_resource_params (res_key liberty) (amqp_ssl_port env w)) w
                  = (Inr (resources, resource_params), built)"
    unfolding ha_joined_dns [OF assms(1) mode assms(5) handed]
    by (simp add: bind_def ret_def bindiface mcastport payload
        relation_set_stores [OF writes] record_event_def stored)
  have none: "map_of payload ''groups'' = None"
    by (simp add: assms(9))
  show ?thesis
    using vips dns none unfolding first params by simp
qed

text \<open>
  Without DNS HA, with the two virtual IPs configured in the other order, and with DNS HA,
  where the parameter builder has written a group of its own.
\<close>

theorem ha_joined_two_writes_witness:
  \<open>fst (ha_joined other_vip_env None empty_world) = Inr ()
   \<and> trace (snd (ha_joined other_vip_env None empty_world))
       = [RelationSet None
            [(''groups'', VDict [(''grp_ceilometer_vips'', ''res_ceilometer_eth0_vip'')])],
          RelationSet None
            [(''init_services'', VDict [(''res_ceilometer_haproxy'', ''haproxy'')]),
             (''corosync_bindiface'', VStr ''eth0''),
             (''corosync_mcastport'', VInt 5403),
             (''resources'',
              VDict [(''res_ceilometer_haproxy'', ''lsb:haproxy''),
                     (''res_ceilometer_polling'', ''ocf:openstack:ceilometer-polling''),
                     (''res_ceilometer_eth0_vip'', ''ocf:heartbeat:IPaddr2'')]),
             (''resource_params'',
              VDict [(''res_ceilometer_haproxy'', ''op monitor interval="5s"''),
                     (''res_ceilometer_polling'', ''op monitor interval="30s"''),
                     (''res_ceilometer_eth0_vip'',
                      ''params ip="10.0.0.10" cidr_netmask="255.255.255.0" nic="eth0"'')]),
             (''delete_resources'', VList [''res_ceilometer_agent_central'']),
             (''clones'', VDict [(''cl_ceilometer_haproxy'', ''res_ceilometer_haproxy'')])]]
   \<and> truthy (config dns_ha_env empty_world ''dns-ha'')
   \<and> fst (ha_joined dns_ha_env (Some ''ha:5'') empty_world) = Inr ()
   \<and> trace (snd (ha_joined dns_ha_env (Some ''ha:5'') empty_world))
       = [RelationSet (Some ''ha:5'')
            [(''groups'',
              VDict [(''grp_ceilometer_hostnames'', ''res_ceilometer_public_hostname'')])],
          RelationSet (Some ''ha:5'')
            [(''init_services'', VDict [(''res_ceilometer_haproxy'', ''haproxy'')]),
             (''corosync_bindiface'', VStr ''eth0''),
             (''corosync_mcastport'', VInt 5403),
             (''resources'',
              VDict [(''res_ceilometer_haproxy'', ''lsb:haproxy''),
                     (''res_ceilometer_polling'', ''ocf:openstack:ceilometer-polling''),
                     (''res_ceilometer_public_hostname'', ''ocf:maas:dns'')]),
             (''resource_params'',
              VDict [(''res_ceilometer_haproxy'', ''op monitor interval="5s"''),
                     (''res_ceilometer_polling'', ''op monitor interval="30s"''),
                     (''res_ceilometer_public_hostname'',
                      ''params fqdn="ceilometer.example.com" ip_address="10.0.0.1"'')]),
             (''delete_resources'', VList [''res_ceilometer_agent_central'']),
             (''clones'', VDict [(''cl_ceilometer_haproxy'', ''res_ceilometer_haproxy'')])]]\<close>
proof -
  let ?cfg = "[(''ha-bindiface'', VStr ''eth0''), (''ha-mcastport'', VInt 5403),
               (''vip'', VStr ''192.168.7.10 10.0.0.10'')]"
  let ?cfg' = "[(''ha-bindiface'', VStr ''eth0''), (''ha-mcastport'', VInt 5403),
                (''vip'', VStr ''10.0.0.10 192.168.7.10'')]"
  have blank: "trace empty_world = []"
    by (simp add: empty_world_def)
  have cfg: "get_hacluster_config other_vip_env empty_world = Inr ?cfg"
    by (simp add: other_vip_env_def)
  have mode: "\<not> truthy (config other_vip_env empty_world ''dns-ha'')"
    by (simp add: other_vip_env_def one_vip_env_def idle_env_def)
  have vip: "map_of ?cfg ''vip'' = Some (VStr ''192.168.7.10 10.0.0.10'')"
    and bindiface: "map_of ?cfg ''ha-bindiface'' = Some (VStr ''eth0'')"
    and mcastport: "map_of ?cfg ''ha-mcastport'' = Some (VInt 5403)"
    by simp_all
  have writes: "\<forall>w' settings. fails other_vip_env w' (RelationSet None settings) = None"
    by (simp add: other_vip_env_def one_vip_env_def idle_env_def)
  have liberty: "release_ge other_vip_env
                   (os_release other_vip_env empty_world ''ceilometer-common'') ''liberty''"
    by (simp add: other_vip_env_def one_vip_env_def idle_env_def)
  have port: "amqp_ssl_port other_vip_env empty_world = None"
    by (simp add: amqp_ssl_port_def other_vip_env_def one_vip_env_def idle_env_def)
  have loop: \<open>vip_resources other_vip_env empty_world
           [(''res_ceilometer_haproxy'', ''lsb:haproxy''),
            (''res_ceilometer_polling'', ''ocf:openstack:ceilometer-polling'')]
           [(''res_ceilometer_haproxy'', ''op monitor interval="5s"''),
            (''res_ceilometer_polling'', ''op monitor interval="30s"'')]
           (py_split ''192.168.7.10 10.0.0.10'')
         = ([(''res_ceilometer_haproxy'', ''lsb:haproxy''),
             (''res_ceilometer_polling'', ''ocf:openstack:ceilometer-polling''),
             (''res_ceilometer_eth0_vip'', ''ocf:heartbeat:IPaddr2'')],
            [(''res_ceilometer_haproxy'', ''op monitor interval="5s"''),
             (''res_ceilometer_polling'', ''op monitor interval="30s"''),
             (''res_ceilometer_eth0_vip'',
              ''params ip="10.0.0.10" cidr_netmask="255.255.255.0" nic="eth0"'')],
            [''res_ceilometer_eth0_vip''])\<close>
    by (simp add: py_split_def is_space_def vip_resources_def vip_step_def Let_def
        other_vip_env_def one_vip_env_def idle_env_def)
  have cfg': "get_hacluster_config dns_ha_env empty_world = Inr ?cfg'"
    by (simp add: dns_ha_env_def idle_env_def)
  have mode': "truthy (config dns_ha_env empty_world ''dns-ha'')"
    by (simp add: dns_ha_env_def)
  have bindiface': "map_of ?cfg' ''ha-bindiface'' = Some (VStr ''eth0'')"
    and mcastport': "map_of ?cfg' ''ha-mcastport'' = Some (VInt 5403)"
    by simp_all
  have writes': "\<forall>w' settings. fails dns_ha_env w' (RelationSet (Some ''ha:5'') settings) = None"
    by (simp add: dns_ha_env_def idle_env_def)
  have liberty': "release_ge dns_ha_env
                    (os_release dns_ha_env empty_world ''ceilometer-common'') ''liberty''"
    by (simp add: dns_ha_env_def idle_env_def)
  have port': "amqp_ssl_port dns_ha_env empty_world = None"
    by (simp add: amqp_ssl_port_def dns_ha_env_def idle_env_def)
  have handed: \<open>update_dns_ha_resource_params dns_ha_env (Some ''ha:5'')
           [(''res_ceilometer_haproxy'', ''lsb:haproxy''),
            (''res_ceilometer_polling'', ''ocf:openstack:ceilometer-polling'')]
           [(''res_ceilometer_haproxy'', ''op monitor interval="5s"''),
            (''res_ceilometer_polling'', ''op monitor interval="30s"'')]
           empty_world
         = (Inr ([(''res_ceilometer_haproxy'', ''lsb:haproxy''),
                  (''res_ceilometer_polling'', ''ocf:openstack:ceilometer-polling''),
                  (''res_ceilometer_public_hostname'', ''ocf:maas:dns'')],
                 [(''res_ceilometer_haproxy'', ''op monitor interval="5s"''),
                  (''res_ceilometer_polling'', ''op monitor interval="30s"''),
                  (''res_ceilometer_public_hostname'',
                   ''params fqdn="ceilometer.example.com" ip_address="10.0.0.1"'')]),
            record_event
              (RelationSet (Some ''ha:5'')
                 [(''groups'',
                   VDict [(''grp_ceilometer_hostnames'', ''res_ceilometer_public_hostname'')])])
              empty_world)\<close>
    by (simp add: dns_ha_env_def)
  have without: \<open>fst (ha_joined other_vip_env None empty_world) = Inr ()
   \<and> trace (snd (ha_joined other_vip_env None empty_world))
       = [RelationSet None
            [(''groups'', VDict [(''grp_ceilometer_vips'', ''res_ceilometer_eth0_vip'')])],
          RelationSet None
            [(''init_services'', VDict [(''res_ceilometer_haproxy'', ''haproxy'')]),
             (''corosync_bindiface'', VStr ''eth0''),
             (''corosync_mcastport'', VInt 5403),
             (''resources'',
              VDict [(''res_ceilometer_haproxy'', ''lsb:haproxy''),
                     (''res_ceilometer_polling'', ''ocf:openstack:ceilometer-polling''),
                     (''res_ceilometer_eth0_vip'', ''ocf:heartbeat:IPaddr2'')]),
             (''resource_params'',
              VDict [(''res_ceilometer_haproxy'', ''op monitor interval="5s"''),
                     (''res_ceilometer_polling'', ''op monitor interval="30s"''),
                     (''res_ceilometer_eth0_vip'',
                      ''params ip="10.0.0.10" cidr_netmask="255.255.255.0" nic="eth0"'')]),
             (''delete_resources'', VList [''res_ceilometer_agent_central'']),
             (''clones'', VDict [(''cl_ceilometer_haproxy'', ''res_ceilometer_haproxy'')])]]\<close>
    using mode vip loop liberty
      ha_joined_two_writes [OF cfg bindiface mcastport writes refl refl refl refl refl,
        where vips = "''192.168.7.10 10.0.0.10''"
          and resources = "[(''res_ceilometer_haproxy'', ''lsb:haproxy''),
             (''res_ceilometer_polling'', ''ocf:openstack:ceilometer-polling''),
             (''res_ceilometer_eth0_vip'', ''ocf:heartbeat:IPaddr2'')]"
          and resource_params = \<open>[(''res_ceilometer_haproxy'', ''op monitor interval="5s"''),
             (''res_ceilometer_polling'', ''op monitor interval="30s"''),
             (''res_ceilometer_eth0_vip'',
              ''params ip="10.0.0.10" cidr_netmask="255.255.255.0" nic="eth0"'')]\<close>
          and vip_group = "[''res_ceilometer_eth0_vip'']"]
    by (simp add: port blank)
  have with_dns: \<open>fst (ha_joined dns_ha_env (Some ''ha:5'') empty_world) = Inr ()
   \<and> trace (snd (ha_joined dns_ha_env (Some ''ha:5'') empty_world))
       = [RelationSet (Some ''ha:5'')
            [(''groups'',
              VDict [(''grp_ceilometer_hostnames'', ''res_ceilometer_public_hostname'')])],
          RelationSet (Some ''ha:5'')
            [(''init_services'', VDict [(''res_ceilometer_haproxy'', ''haproxy'')]),
             (''corosync_bindiface'', VStr ''eth0''),
             (''corosync_mcastport'', VInt 5403),
             (''resources'',
              VDict [(''res_ceilometer_haproxy'', ''lsb:haproxy''),
                     (''res_ceilometer_polling'', ''ocf:openstack:ceilometer-polling''),
                     (''res_ceilometer_public_hostname'', ''ocf:maas:dns'')]),
             (''resource_params'',
              VDict [(''res_ceilometer_haproxy'', ''op monitor interval="5s"''),
                     (''res_ceilometer_polling'', ''op monitor interval="30s"''),
                     (''res_ceilometer_public_hostname'',
                      ''params fqdn="ceilometer.example.com" ip_address="10.0.0.1"'')]),
             (''delete_resources'', VList [''res_ceilometer_agent_central'']),
             (''clones'', VDict [(''cl_ceilometer_haproxy'', ''res_ceilometer_haproxy'')])]]\<close>
    using mode' handed liberty'
      ha_joined_two_writes [OF cfg' bindiface' mcastport' writes' refl refl refl refl refl,
        where resources = "[(''res_ceilometer_haproxy'', ''lsb:haproxy''),
             (''res_ceilometer_polling'', ''ocf:openstack:ceilometer-polling''),
             (''res_ceilometer_public_hostname'', ''ocf:maas:dns'')]"
          and resource_params = \<open>[(''res_ceilometer_haproxy'', ''op monitor interval="5s"''),
             (''res_ceilometer_polling'', ''op monitor interval="30s"''),
             (''res_ceilometer_public_hostname'',
              ''params fqdn="ceilometer.example.com" ip_address="10.0.0.1"'')]\<close>
          and built = "record_event
              (RelationSet (Some ''ha:5'')
                 [(''groups'',
                   VDict [(''grp_ceilometer_hostnames'', ''res_ceilometer_public_hostname'')])])
              empty_world"]
    by (simp add: port' record_event_def blank)
  show ?thesis
    using without mode' with_dns by blast
qed

text \<open>
  Claim C6: two virtual IPs are configured and exactly one of them has a local interface.
  Then \<^verbatim>\<open>ha_joined\<close> returns normally; the address without an interface is passed over.
  It writes the group first and then all the other settings. The group holds one
  resource. The resources and the resource parameters are those of the two services
  followed by one resource of a virtual IP, the one of the address that has the
  interface. After the run the unit's settings on the relation hold that group and that
  resource map.
\<close>

theorem ha_joined_one_resolvable_vip:
  assumes "get_hacluster_config env w = Inr cfg"
    and "\<not> truthy (config env w ''dns-ha'')"
    and "map_of cfg ''vip'' = Some (VStr vips)"
    and "length (py_split vips) = 2"
    and "resolvable_vips env w (py_split vips) = [vip]"
    and "get_iface_for_address env w vip = Some iface"
    and "map_of cfg ''ha-bindiface'' = Some bindiface"
    and "map_of cfg ''ha-mcastport'' = Some mcastport"
    and "liberty = release_ge env (os_release env w ''ceilometer-common'') ''liberty''"
    and "\<forall>w' settings. fails env w' (RelationSet rid settings) = None"
    and "key = (if liberty then ''res_ceilometer_polling'' else ''res_ceilometer_agent_central'')"
    and "ocf = (if liberty then ''ocf:openstack:ceilometer-polling''
                else ''ocf:openstack:ceilometer-agent-central'')"
    and \<open>service_params =
           (case amqp_ssl_port env w of
              None \<Rightarrow> ''op monitor interval="30s"''
            | Some port \<Rightarrow>
                if port = [] then ''op monitor interval="30s"''
                else ''params amqp_server_port="'' @ port @ ''" op monitor interval="30s"'')\<close>
    and "vip_key = ''res_ceilometer_'' @ iface @ ''_vip''"
    and \<open>resources =
           [(''res_ceilometer_haproxy'', ''lsb:haproxy''),
            (key, ocf),
            (vip_key, ''ocf:heartbeat:IPaddr2'')]\<close>
    and \<open>resource_params =
           [(''res_ceilometer_haproxy'', ''op monitor interval="5s"''),
            (key, service_params),
            (vip_key,
             ''params ip="'' @ vip @ ''" cidr_netmask="''
               @ str_opt (get_netmask_for_address env w vip)
               @ ''" nic="'' @ iface @ ''"'')]\<close>
  shows \<open>fst (ha_joined env rid w) = Inr ()
       \<and> trace (snd (ha_joined env rid w))
           = trace w
             @ [RelationSet rid [(''groups'', VDict [(''grp_ceilometer_vips'', vip_key)])],
                RelationSet rid
                  [(''init_services'', VDict [(''res_ceilometer_haproxy'', ''haproxy'')]),
                   (''corosync_bindiface'', bindiface),
                   (''corosync_mcastport'', mcastport),
                   (''resources'', VDict resources),
                   (''resource_params'', VDict resource_params),
                   (''delete_resources'',
                    VList (if liberty then [''res_ceilometer_agent_central''] else [])),
                   (''clones'',
                    VDict [(''cl_ceilometer_haproxy'', ''res_ceilometer_haproxy'')])]]
       \<and> relation_data (snd (ha_joined env rid w)) rid ''groups''
           = Some (VDict [(''grp_ceilometer_vips'', vip_key)])
       \<and> relation_data (snd (ha_joined env rid w)) rid ''resources'' = Some (VDict resources)
       \<and> relation_data (snd (ha_joined env rid w)) rid ''resource_params''
           = Some (VDict resource_params)\<close>
proof -
  have first: "service_resources (res_key liberty)
                 = [(''res_ceilometer_haproxy'', ''lsb:haproxy''), (key, ocf)]"
    unfolding assms(11,12) by (rule service_resources_explicit)
  have params: \<open>service_resource_params (res_key liberty) (amqp_ssl_port env w)
                 = [(''res_ceilometer_haproxy'', ''op monitor interval="5s"''),
                    (key, service_params)]\<close>
    unfolding assms(11,13) by (rule service_resource_params_explicit)
  have loop: "vip_resources env w (service_resources (res_key liberty))
                (service_resource_params (res_key liberty) (amqp_ssl_port env w)) (py_split vips)
              = (resources, resource_params, [vip_key])"
    using vip_resources_single [OF assms(5,6), of liberty "amqp_ssl_port env w"]
    by (simp add: first params assms(14,15,16))
  have bindiface: "dict_get cfg ''ha-bindiface'' = ret bindiface"
    and mcastport: "dict_get cfg ''ha-mcastport'' = ret mcastport"
    using assms(7,8) by (simp_all add: dict_get_def)
  have writes: "fails env w' (RelationSet rid settings) = None" for w' settings
    using assms(10) by simp
  show ?thesis
    unfolding ha_joined_non_dns [OF assms(1,2,3,9) loop]
    by (simp add: seq_def only_if_def bind_def ret_def bindiface mcastport
        relation_set_stores [OF writes] record_event_def group_settings_def
        store_settings_payload delete_resources_explicit [symmetric])
       (simp add: ha_settings_def store_settings_def delete_resources_explicit)
qed

theorem ha_joined_one_resolvable_vip_witness:
  \<open>length (py_split ''10.0.0.10 192.168.7.10'') = 2
   \<and> resolvable_vips one_vip_env grouped_world (py_split ''10.0.0.10 192.168.7.10'')
       = [''10.0.0.10'']
   \<and> fst (ha_joined one_vip_env (Some ''ha:5'') grouped_world) = Inr ()
   \<and> trace (snd (ha_joined one_vip_env (Some ''ha:5'') grouped_world))
       = [RelationSet (Some ''ha:5'')
            [(''groups'', VDict [(''grp_ceilometer_vips'', ''res_ceilometer_eth0_vip'')])],
          RelationSet (Some ''ha:5'')
            [(''init_services'', VDict [(''res_ceilometer_haproxy'', ''haproxy'')]),
             (''corosync_bindiface'', VStr ''eth0''),
             (''corosync_mcastport'', VInt 5403),
             (''resources'',
              VDict [(''res_ceilometer_haproxy'', ''lsb:haproxy''),
                     (''res_ceilometer_polling'', ''ocf:openstack:ceilometer-polling''),
                     (''res_ceilometer_eth0_vip'', ''ocf:heartbeat:IPaddr2'')]),
             (''resource_params'',
              VDict [(''res_ceilometer_haproxy'', ''op monitor interval="5s"''),
                     (''res_ceilometer_polling'', ''op monitor interval="30s"''),
                     (''res_ceilometer_eth0_vip'',
                      ''params ip="10.0.0.10" cidr_netmask="255.255.255.0" nic="eth0"'')]),
             (''delete_resources'', VList [''res_ceilometer_agent_central'']),
             (''clones'', VDict [(''cl_ceilometer_haproxy'', ''res_ceilometer_haproxy'')])]]
   \<and> relation_data (snd (ha_joined one_vip_env (Some ''ha:5'') grouped_world)) (Some ''ha:5'')
        ''resources''
       = Some (VDict [(''res_ceilometer_haproxy'', ''lsb:haproxy''),
                      (''res_ceilometer_polling'', ''ocf:openstack:ceilometer-polling''),
                      (''res_ceilometer_eth0_vip'', ''ocf:heartbeat:IPaddr2'')])\<close>
proof -
  let ?cfg = "[(''ha-bindiface'', VStr ''eth0''), (''ha-mcastport'', VInt 5403),
               (''vip'', VStr ''10.0.0.10 192.168.7.10'')]"
  have blank: "trace grouped_world = []"
    by (simp add: grouped_world_def empty_world_def)
  have cfg: "get_hacluster_config one_vip_env grouped_world = Inr ?cfg"
    by (simp add: one_vip_env_def idle_env_def)
  have mode: "\<not> truthy (config one_vip_env grouped_world ''dns-ha'')"
    by (simp add: one_vip_env_def idle_env_def)
  have vip: "map_of ?cfg ''vip'' = Some (VStr ''10.0.0.10 192.168.7.10'')"
    and bindiface: "map_of ?cfg ''ha-bindiface'' = Some (VStr ''eth0'')"
    and mcastport: "map_of ?cfg ''ha-mcastport'' = Some (VInt 5403)"
    by simp_all
  have two: "length (py_split ''10.0.0.10 192.168.7.10'') = 2"
    by (simp add: py_split_def is_space_def)
  have one: "resolvable_vips one_vip_env grouped_world (py_split ''10.0.0.10 192.168.7.10'')
               = [''10.0.0.10'']"
    by (simp add: resolvable_vips_def py_split_def is_space_def one_vip_env_def)
  have iface: "get_iface_for_address one_vip_env grouped_world ''10.0.0.10'' = Some ''eth0''"
    by (simp add: one_vip_env_def)
  have netmask: "get_netmask_for_address one_vip_env grouped_world ''10.0.0.10''
                   = Some ''255.255.255.0''"
    by (simp add: one_vip_env_def)
  have writes: "\<forall>w' settings. fails one_vip_env w' (RelationSet (Some ''ha:5'') settings) = None"
    by (simp add: one_vip_env_def idle_env_def)
  have liberty: "release_ge one_vip_env
                   (os_release one_vip_env grouped_world ''ceilometer-common'') ''liberty''"
    by (simp add: one_vip_env_def idle_env_def)
  have port: "amqp_ssl_port one_vip_env grouped_world = None"
    by (simp add: amqp_ssl_port_def one_vip_env_def idle_env_def)
  show ?thesis
    using two one
      ha_joined_one_resolvable_vip
        [OF cfg mode vip two one iface bindiface mcastport refl writes refl refl refl refl
            refl refl]
    by (simp add: liberty port netmask blank)
qed

text \<open>
  Claim C5: a release below liberty makes \<^verbatim>\<open>res_ceilometer_agent_central\<close> the key of
  the service resource and the published list of resources to delete empty; liberty or a
  later release makes \<^verbatim>\<open>res_ceilometer_polling\<close> the key and puts the legacy key on the
  published list. Every run that returns normally ends with the write of the resources,
  their parameters and that list. Without DNS HA the resources and the parameters written
  hold the service under the chosen key and nothing under the other key. With DNS HA they
  are what \<^verbatim>\<open>update_dns_ha_resource_params\<close> hands back for the two maps that hold the
  service under the chosen key.
\<close>

theorem ha_joined_resource_key:
  assumes "fst (ha_joined env rid w) = Inr ()"
    and "liberty = release_ge env (os_release env w ''ceilometer-common'') ''liberty''"
    and "key = (if liberty then ''res_ceilometer_polling'' else ''res_ceilometer_agent_central'')"
    and "other = (if liberty then ''res_ceilometer_agent_central'' else ''res_ceilometer_polling'')"
    and "ocf = (if liberty then ''ocf:openstack:ceilometer-polling''
                else ''ocf:openstack:ceilometer-agent-central'')"
    and \<open>service_params =
           (case amqp_ssl_port env w of
              None \<Rightarrow> ''op monitor interval="30s"''
            | Some port \<Rightarrow>
                if port = [] then ''op monitor interval="30s"''
                else ''params amqp_server_port="'' @ port @ ''" op monitor interval="30s"'')\<close>
  shows \<open>\<exists>settings resources resource_params.
           last (trace (snd (ha_joined env rid w))) = RelationSet rid settings
         \<and> map_of settings ''resources'' = Some (VDict resources)
         \<and> map_of settings ''resource_params'' = Some (VDict resource_params)
         \<and> map_of settings ''delete_resources''
             = Some (VList (if liberty then [''res_ceilometer_agent_central''] else []))
         \<and> (\<not> truthy (config env w ''dns-ha'') \<longrightarrow>
               map_of resources key = Some ocf
             \<and> map_of resources other = None
             \<and> map_of resource_params key = Some service_params
             \<and> map_of resource_params other = None)
         \<and> (truthy (config env w ''dns-ha'') \<longrightarrow>
               (\<exists>built.
                  update_dns_ha_resource_params env rid
                    [(''res_ceilometer_haproxy'', ''lsb:haproxy''), (key, ocf)]
                    [(''res_ceilometer_haproxy'', ''op monitor interval="5s"''),
                     (key, service_params)]
                    w
                  = (Inr (resources, resource_params), built)))\<close>
proof -
  have run: "ha_joined env rid w = (Inr (), snd (ha_joined env rid w))"
    using assms(1) by (simp add: prod_eq_iff)
  have first: "service_resources (res_key liberty)
                 = [(''res_ceilometer_haproxy'', ''lsb:haproxy''), (key, ocf)]"
    unfolding assms(3,5) by (rule service_resources_explicit)
  have params: \<open>service_resource_params (res_key liberty) (amqp_ssl_port env w)
                 = [(''res_ceilometer_haproxy'', ''op monitor interval="5s"''),
                    (key, service_params)]\<close>
    unfolding assms(3,6) by (rule service_resource_params_explicit)
  have written: "map_of (ha_settings bindiface mcastport resources resource_params
                           (delete_resources liberty)) ''resources'' = Some (VDict resources)
       \<and> map_of (ha_settings bindiface mcastport resources resource_params
                           (delete_resources liberty)) ''resource_params''
           = Some (VDict resource_params)
       \<and> map_of (ha_settings bindiface mcastport resources resource_params
                           (delete_resources liberty)) ''delete_resources''
           = Some (VList (if liberty then [''res_ceilometer_agent_central''] else []))"
    for bindiface mcastport resources resource_params
    by (simp add: ha_settings_def delete_resources_explicit)
  show ?thesis
  proof (cases "truthy (config env w ''dns-ha'')")
    case True
    from ha_joined_dns_success [OF run True assms(2)]
    obtain resources resource_params built bindiface mcastport
      where handed: "update_dns_ha_resource_params env rid (service_resources (res_key liberty))
               (service_resource_params (res_key liberty) (amqp_ssl_port env w)) w
             = (Inr (resources, resource_params), built)"
        and last: "last (trace (snd (ha_joined env rid w)))
             = RelationSet rid (ha_settings bindiface mcastport resources resource_params
                 (delete_resources liberty))"
      by blast
    from handed have "\<exists>built.
        update_dns_ha_resource_params env rid
          [(''res_ceilometer_haproxy'', ''lsb:haproxy''), (key, ocf)]
          (service_resource_params (res_key liberty) (amqp_ssl_port env w)) w
        = (Inr (resources, resource_params), built)"
      unfolding first by blast
    with True last written [of bindiface mcastport resources resource_params]
    show ?thesis
      unfolding params by blast
  next
    case False
    from ha_joined_non_dns_success [OF run False assms(2)]
    obtain cfg vips bindiface mcastport
      where last: "last (trace (snd (ha_joined env rid w)))
             = RelationSet rid
                 (ha_settings bindiface mcastport
                    (fst (vip_resources env w (service_resources (res_key liberty))
                            (service_resource_params (res_key liberty) (amqp_ssl_port env w))
                            (py_split vips)))
                    (fst (snd (vip_resources env w (service_resources (res_key liberty))
                            (service_resource_params (res_key liberty) (amqp_ssl_port env w))
                            (py_split vips))))
                    (delete_resources liberty))"
      by blast
    let ?resources = "fst (vip_resources env w (service_resources (res_key liberty))
                            (service_resource_params (res_key liberty) (amqp_ssl_port env w))
                            (py_split vips))"
    let ?resource_params = "fst (snd (vip_resources env w (service_resources (res_key liberty))
                            (service_resource_params (res_key liberty) (amqp_ssl_port env w))
                            (py_split vips)))"
    have chosen: "last key \<noteq> CHR ''p''" and left: "last other \<noteq> CHR ''p''"
      by (simp_all add: assms(3,4))
    have apart: "other \<noteq> ''res_ceilometer_haproxy''" "other \<noteq> key"
      "key \<noteq> ''res_ceilometer_haproxy''"
      by (simp_all add: assms(3,4))
    have held: "map_of ?resources key = Some ocf \<and> map_of ?resources other = None
        \<and> map_of ?resource_params key = Some service_params
        \<and> map_of ?resource_params other = None"
      using apart
      by (simp add: vip_resources_other_key [OF chosen] vip_resources_other_key [OF left]
          first params)
    from False last written [of bindiface mcastport ?resources ?resource_params] held
    show ?thesis
      by blast
  qed
qed

theorem ha_joined_resource_key_witness:
  \<open>fst (ha_joined idle_env (Some ''ha:5'') empty_world) = Inr ()
   \<and> release_ge idle_env (os_release idle_env empty_world ''ceilometer-common'') ''liberty''
   \<and> (\<exists>settings resources.
         last (trace (snd (ha_joined idle_env (Some ''ha:5'') empty_world)))
           = RelationSet (Some ''ha:5'') settings
       \<and> map_of settings ''delete_resources'' = Some (VList [''res_ceilometer_agent_central''])
       \<and> map_of settings ''resources'' = Some (VDict resources)
       \<and> map_of resources ''res_ceilometer_polling'' = Some ''ocf:openstack:ceilometer-polling''
       \<and> map_of resources ''res_ceilometer_agent_central'' = None)
   \<and> fst (ha_joined kilo_env (Some ''ha:5'') empty_world) = Inr ()
   \<and> \<not> release_ge kilo_env (os_release kilo_env empty_world ''ceilometer-common'') ''liberty''
   \<and> (\<exists>settings resources.
         last (trace (snd (ha_joined kilo_env (Some ''ha:5'') empty_world)))
           = RelationSet (Some ''ha:5'') settings
       \<and> map_of settings ''delete_resources'' = Some (VList [])
       \<and> map_of settings ''resources'' = Some (VDict resources)
       \<and> map_of resources ''res_ceilometer_agent_central''
           = Some ''ocf:openstack:ceilometer-agent-central''
       \<and> map_of resources ''res_ceilometer_polling'' = None)
   \<and> fst (ha_joined dns_ha_env (Some ''ha:5'') empty_world) = Inr ()
   \<and> truthy (config dns_ha_env empty_world ''dns-ha'')
   \<and> (\<exists>settings resources resource_params built.
         last (trace (snd (ha_joined dns_ha_env (Some ''ha:5'') empty_world)))
           = RelationSet (Some ''ha:5'') settings
       \<and> map_of settings ''delete_resources'' = Some (VList [''res_ceilometer_agent_central''])
       \<and> map_of settings ''resources'' = Some (VDict resources)
       \<and> update_dns_ha_resource_params dns_ha_env (Some ''ha:5'')
            [(''res_ceilometer_haproxy'', ''lsb:haproxy''),
             (''res_ceilometer_polling'', ''ocf:openstack:ceilometer-polling'')]
            [(''res_ceilometer_haproxy'', ''op monitor interval="5s"''),
             (''res_ceilometer_polling'', ''op monitor interval="30s"'')]
            empty_world
          = (Inr (resources, resource_params), built))\<close>
proof -
  have run: "fst (ha_joined idle_env (Some ''ha:5'') empty_world) = Inr ()"
    by (simp add: ha_joined_def hook_defs action_defs dict_get_def split_value_def
        vip_resources_def vip_step_def py_split_def is_space_def idle_env_def)
  have liberty: "release_ge idle_env (os_release idle_env empty_world ''ceilometer-common'')
                   ''liberty''"
    by (simp add: idle_env_def)
  have mode: "\<not> truthy (config idle_env empty_world ''dns-ha'')"
    by (simp add: idle_env_def)
  have run': "fst (ha_joined kilo_env (Some ''ha:5'') empty_world) = Inr ()"
    by (simp add: ha_joined_def hook_defs action_defs dict_get_def split_value_def
        vip_resources_def vip_step_def py_split_def is_space_def kilo_env_def idle_env_def)
  have kilo: "\<not> release_ge kilo_env (os_release kilo_env empty_world ''ceilometer-common'')
                   ''liberty''"
    by (simp add: kilo_env_def idle_env_def)
  have mode': "\<not> truthy (config kilo_env empty_world ''dns-ha'')"
    by (simp add: kilo_env_def idle_env_def)
  have run'': "fst (ha_joined dns_ha_env (Some ''ha:5'') empty_world) = Inr ()"
    by (simp add: ha_joined_def hook_defs action_defs dict_get_def dns_ha_env_def idle_env_def)
  have liberty'': "release_ge dns_ha_env (os_release dns_ha_env empty_world ''ceilometer-common'')
                   ''liberty''"
    by (simp add: dns_ha_env_def idle_env_def)
  have mode'': "truthy (config dns_ha_env empty_world ''dns-ha'')"
    by (simp add: dns_ha_env_def)
  have port'': "amqp_ssl_port dns_ha_env empty_world = None"
    by (simp add: amqp_ssl_port_def dns_ha_env_def idle_env_def)
  have new: "\<exists>settings resources.
         last (trace (snd (ha_joined idle_env (Some ''ha:5'') empty_world)))
           = RelationSet (Some ''ha:5'') settings
       \<and> map_of settings ''delete_resources'' = Some (VList [''res_ceilometer_agent_central''])
       \<and> map_of settings ''resources'' = Some (VDict resources)
       \<and> map_of resources ''res_ceilometer_polling'' = Some ''ocf:openstack:ceilometer-polling''
       \<and> map_of resources ''res_ceilometer_agent_central'' = None"
    using ha_joined_resource_key [OF run refl refl refl refl refl]
    by (simp add: liberty mode) blast
  have legacy: "\<exists>settings resources.
         last (trace (snd (ha_joined kilo_env (Some ''ha:5'') empty_world)))
           = RelationSet (Some ''ha:5'') settings
       \<and> map_of settings ''delete_resources'' = Some (VList [])
       \<and> map_of settings ''resources'' = Some (VDict resources)
       \<and> map_of resources ''res_ceilometer_agent_central''
           = Some ''ocf:openstack:ceilometer-agent-central''
       \<and> map_of resources ''res_ceilometer_polling'' = None"
    using ha_joined_resource_key [OF run' refl refl refl refl refl]
    by (simp add: kilo mode') blast
  have dns: \<open>\<exists>settings resources resource_params built.
         last (trace (snd (ha_joined dns_ha_env (Some ''ha:5'') empty_world)))
           = RelationSet (Some ''ha:5'') settings
       \<and> map_of settings ''delete_resources'' = Some (VList [''res_ceilometer_agent_central''])
       \<and> map_of settings ''resources'' = Some (VDict resources)
       \<and> update_dns_ha_resource_params dns_ha_env (Some ''ha:5'')
            [(''res_ceilometer_haproxy'', ''lsb:haproxy''),
             (''res_ceilometer_polling'', ''ocf:openstack:ceilometer-polling'')]
            [(''res_ceilometer_haproxy'', ''op monitor interval="5s"''),
             (''res_ceilometer_polling'', ''op monitor interval="30s"'')]
            empty_world
          = (Inr (resources, resource_params), built)\<close>
    using ha_joined_resource_key [OF run'' refl refl refl refl refl]
    by (simp add: liberty'' mode'' port'') blast
  show ?thesis
    using run liberty new run' kilo legacy run'' mode'' dns by blast
qed

text \<open>
  Claim C9: the port that overrides the parameters of the service resource is the
  \<^verbatim>\<open>ssl_port\<close> of the amqp unit enumerated last. When that unit advertises none (or an
  empty one) the parameters stay \<^verbatim>\<open>op monitor interval="30s"\<close>, whatever the units before
  it advertise. In every run that returns normally these are the parameters of the
  service resource: without DNS HA in the resource parameters of the last write, with DNS
  HA in the resource parameters handed to \<^verbatim>\<open>update_dns_ha_resource_params\<close>, whose answer
  the last write carries.
\<close>

theorem ha_joined_last_ssl_port:
  assumes "amqp_units env w = earlier @ [(rel_id, unit)]"
    and "fst (ha_joined env rid w) = Inr ()"
    and "liberty = release_ge env (os_release env w ''ceilometer-common'') ''liberty''"
    and "key = (if liberty then ''res_ceilometer_polling'' else ''res_ceilometer_agent_central'')"
    and "ocf = (if liberty then ''ocf:openstack:ceilometer-polling''
                else ''ocf:openstack:ceilometer-agent-central'')"
    and \<open>service_params =
           (case relation_get env w ''ssl_port'' (Some unit) (Some rel_id) of
              None \<Rightarrow> ''op monitor interval="30s"''
            | Some port \<Rightarrow>
                if port = [] then ''op monitor interval="30s"''
                else ''params amqp_server_port="'' @ port @ ''" op monitor interval="30s"'')\<close>
  shows \<open>amqp_ssl_port env w = relation_get env w ''ssl_port'' (Some unit) (Some rel_id)
       \<and> (\<exists>settings resources resource_params.
             last (trace (snd (ha_joined env rid w))) = RelationSet rid settings
           \<and> map_of settings ''resource_params'' = Some (VDict resource_params)
           \<and> (\<not> truthy (config env w ''dns-ha'') \<longrightarrow>
                 map_of resource_params key = Some service_params)
           \<and> (truthy (config env w ''dns-ha'') \<longrightarrow>
                 (\<exists>built.
                    update_dns_ha_resource_params env rid
                      [(''res_ceilometer_haproxy'', ''lsb:haproxy''), (key, ocf)]
                      [(''res_ceilometer_haproxy'', ''op monitor interval="5s"''),
                       (key, service_params)]
                      w
                    = (Inr (resources, resource_params), built))))\<close>
proof -
  have run: "ha_joined env rid w = (Inr (), snd (ha_joined env rid w))"
    using assms(2) by (simp add: prod_eq_iff)
  have port: "amqp_ssl_port env w = relation_get env w ''ssl_port'' (Some unit) (Some rel_id)"
    by (simp add: amqp_ssl_port_last assms(1))
  have first: "service_resources (res_key liberty)
                 = [(''res_ceilometer_haproxy'', ''lsb:haproxy''), (key, ocf)]"
    unfolding assms(4,5) by (rule service_resources_explicit)
  have params: \<open>service_resource_params (res_key liberty) (amqp_ssl_port env w)
                 = [(''res_ceilometer_haproxy'', ''op monitor interval="5s"''),
                    (key, service_params)]\<close>
    unfolding assms(4,6) port by (rule service_resource_params_explicit)
  have written: "map_of (ha_settings bindiface mcastport resources resource_params
                           (delete_resources liberty)) ''resource_params''
                   = Some (VDict resource_params)"
    for bindiface mcastport resources resource_params
    by (simp add: ha_settings_def)
  have published: \<open>\<exists>settings resources resource_params.
             last (trace (snd (ha_joined env rid w))) = RelationSet rid settings
           \<and> map_of settings ''resource_params'' = Some (VDict resource_params)
           \<and> (\<not> truthy (config env w ''dns-ha'') \<longrightarrow>
                 map_of resource_params key = Some service_params)
           \<and> (truthy (config env w ''dns-ha'') \<longrightarrow>
                 (\<exists>built.
                    update_dns_ha_resource_params env rid
                      [(''res_ceilometer_haproxy'', ''lsb:haproxy''), (key, ocf)]
                      [(''res_ceilometer_haproxy'', ''op monitor interval="5s"''),
                       (key, service_params)]
                      w
                    = (Inr (resources, resource_params), built)))\<close>
  proof (cases "truthy (config env w ''dns-ha'')")
    case True
    from ha_joined_dns_success [OF run True assms(3)]
    obtain resources resource_params built bindiface mcastport
      where handed: "update_dns_ha_resource_params env rid (service_resources (res_key liberty))
               (service_resource_params (res_key liberty) (amqp_ssl_port env w)) w
             = (Inr (resources, resource_params), built)"
        and last: "last (trace (snd (ha_joined env rid w)))
             = RelationSet rid (ha_settings bindiface mcastport resources resource_params
                 (delete_resources liberty))"
      by blast
    from handed have "\<exists>built.
        update_dns_ha_resource_params env rid
          [(''res_ceilometer_haproxy'', ''lsb:haproxy''), (key, ocf)]
          (service_resource_params (res_key liberty) (amqp_ssl_port env w)) w
        = (Inr (resources, resource_params), built)"
      unfolding first by blast
    with True last written [of bindiface mcastport resources resource_params]
    show ?thesis
      unfolding params by blast
  next
    case False
    from ha_joined_non_dns_success [OF run False assms(3)]
    obtain cfg vips bindiface mcastport
      where last: "last (trace (snd (ha_joined env rid w)))
             = RelationSet rid
                 (ha_settings bindiface mcastport
                    (fst (vip_resources env w (service_resources (res_key liberty))
                            (service_resource_params (res_key liberty) (amqp_ssl_port env w))
                            (py_split vips)))
                    (fst (snd (vip_resources env w (service_resources (res_key liberty))
                            (service_resource_params (res_key liberty) (amqp_ssl_port env w))
                            (py_split vips))))
                    (delete_resources liberty))"
      by blast
    let ?resources = "fst (vip_resources env w (service_resources (res_key liberty))
                            (service_resource_params (res_key liberty) (amqp_ssl_port env w))
                            (py_split vips))"
    let ?resource_params = "fst (snd (vip_resources env w (service_resources (res_key liberty))
                            (service_resource_params (res_key liberty) (amqp_ssl_port env w))
                            (py_split vips)))"
    have chosen: "last key \<noteq> CHR ''p''"
      and apart: "key \<noteq> ''res_ceilometer_haproxy''"
      by (simp_all add: assms(4))
    have held: "map_of ?resource_params key = Some service_params"
      using apart by (simp add: vip_resources_other_key [OF chosen] params)
    from False last written [of bindiface mcastport ?resources ?resource_params] held
    show ?thesis
      by blast
  qed
  with port show ?thesis
    by blast
qed

text \<open>
  Without DNS HA: the first of two units advertises a port and the last does not, then
  the other way round. With DNS HA: the last unit advertises the port.
\<close>

theorem ha_joined_last_ssl_port_witness:
  \<open>amqp_units amqp_first_ssl_env empty_world
     = [(''amqp:3'', ''rabbitmq-server/0'')] @ [(''amqp:3'', ''rabbitmq-server/1'')]
   \<and> relation_get amqp_first_ssl_env empty_world ''ssl_port'' (Some ''rabbitmq-server/0'')
        (Some ''amqp:3'') = Some ''5671''
   \<and> relation_get amqp_first_ssl_env empty_world ''ssl_port'' (Some ''rabbitmq-server/1'')
        (Some ''amqp:3'') = None
   \<and> fst (ha_joined amqp_first_ssl_env None empty_world) = Inr ()
   \<and> amqp_ssl_port amqp_first_ssl_env empty_world = None
   \<and> (\<exists>settings resource_params.
         last (trace (snd (ha_joined amqp_first_ssl_env None empty_world)))
           = RelationSet None settings
       \<and> map_of settings ''resource_params'' = Some (VDict resource_params)
       \<and> map_of resource_params ''res_ceilometer_polling'' = Some ''op monitor interval="30s"'')
   \<and> relation_get amqp_last_ssl_env empty_world ''ssl_port'' (Some ''rabbitmq-server/1'')
        (Some ''amqp:3'') = Some ''5671''
   \<and> fst (ha_joined amqp_last_ssl_env None empty_world) = Inr ()
   \<and> (\<exists>settings resource_params.
         last (trace (snd (ha_joined amqp_last_ssl_env None empty_world)))
           = RelationSet None settings
       \<and> map_of settings ''resource_params'' = Some (VDict resource_params)
       \<and> map_of resource_params ''res_ceilometer_polling''
           = Some ''params amqp_server_port="5671" op monitor interval="30s"'')
   \<and> truthy (config dns_ha_amqp_env empty_world ''dns-ha'')
   \<and> fst (ha_joined dns_ha_amqp_env None empty_world) = Inr ()
   \<and> (\<exists>settings resources resource_params built.
         last (trace (snd (ha_joined dns_ha_amqp_env None empty_world)))
           = RelationSet None settings
       \<and> map_of settings ''resource_params'' = Some (VDict resource_params)
       \<and> update_dns_ha_resource_params dns_ha_amqp_env None
            [(''res_ceilometer_haproxy'', ''lsb:haproxy''),
             (''res_ceilometer_polling'', ''ocf:openstack:ceilometer-polling'')]
            [(''res_ceilometer_haproxy'', ''op monitor interval="5s"''),
             (''res_ceilometer_polling'',
              ''params amqp_server_port="5671" op monitor interval="30s"'')]
            empty_world
          = (Inr (resources, resource_params), built))\<close>
proof -
  have units: "amqp_units amqp_first_ssl_env empty_world
     = [(''amqp:3'', ''rabbitmq-server/0'')] @ [(''amqp:3'', ''rabbitmq-server/1'')]"
    by (simp add: amqp_units_def amqp_first_ssl_env_def)
  have run: "fst (ha_joined amqp_first_ssl_env None empty_world) = Inr ()"
    by (simp add: ha_joined_def hook_defs action_defs dict_get_def split_value_def
        vip_resources_def vip_step_def py_split_def is_space_def Let_def
        amqp_first_ssl_env_def one_vip_env_def idle_env_def)
  have mode: "\<not> truthy (config amqp_first_ssl_env empty_world ''dns-ha'')"
    by (simp add: amqp_first_ssl_env_def one_vip_env_def idle_env_def)
  have liberty: "release_ge amqp_first_ssl_env
                   (os_release amqp_first_ssl_env empty_world ''ceilometer-common'') ''liberty''"
    by (simp add: amqp_first_ssl_env_def one_vip_env_def idle_env_def)
  have advertised: "relation_get amqp_first_ssl_env empty_world ''ssl_port''
        (Some ''rabbitmq-server/0'') (Some ''amqp:3'') = Some ''5671''"
    and silent: "relation_get amqp_first_ssl_env empty_world ''ssl_port''
        (Some ''rabbitmq-server/1'') (Some ''amqp:3'') = None"
    by (simp_all add: amqp_first_ssl_env_def)
  have units': "amqp_units amqp_last_ssl_env empty_world
     = [(''amqp:3'', ''rabbitmq-server/0'')] @ [(''amqp:3'', ''rabbitmq-server/1'')]"
    by (simp add: amqp_units_def amqp_last_ssl_env_def amqp_first_ssl_env_def)
  have run': "fst (ha_joined amqp_last_ssl_env None empty_world) = Inr ()"
    by (simp add: ha_joined_def hook_defs action_defs dict_get_def split_value_def
        vip_resources_def vip_step_def py_split_def is_space_def Let_def
        amqp_last_ssl_env_def amqp_first_ssl_env_def one_vip_env_def idle_env_def)
  have mode': "\<not> truthy (config amqp_last_ssl_env empty_world ''dns-ha'')"
    by (simp add: amqp_last_ssl_env_def amqp_first_ssl_env_def one_vip_env_def idle_env_def)
  have liberty': "release_ge amqp_last_ssl_env
                   (os_release amqp_last_ssl_env empty_world ''ceilometer-common'') ''liberty''"
    by (simp add: amqp_last_ssl_env_def amqp_first_ssl_env_def one_vip_env_def idle_env_def)
  have advertised': "relation_get amqp_last_ssl_env empty_world ''ssl_port''
        (Some ''rabbitmq-server/1'') (Some ''amqp:3'') = Some ''5671''"
    by (simp add: amqp_last_ssl_env_def)
  have units'': "amqp_units dns_ha_amqp_env empty_world
     = [(''amqp:3'', ''rabbitmq-server/0'')] @ [(''amqp:3'', ''rabbitmq-server/1'')]"
    by (simp add: amqp_units_def dns_ha_amqp_env_def)
  have run'': "fst (ha_joined dns_ha_amqp_env None empty_world) = Inr ()"
    by (simp add: ha_joined_def hook_defs action_defs dict_get_def
        dns_ha_amqp_env_def dns_ha_env_def idle_env_def)
  have mode'': "truthy (config dns_ha_amqp_env empty_world ''dns-ha'')"
    by (simp add: dns_ha_amqp_env_def dns_ha_env_def)
  have liberty'': "release_ge dns_ha_amqp_env
                   (os_release dns_ha_amqp_env empty_world ''ceilometer-common'') ''liberty''"
    by (simp add: dns_ha_amqp_env_def dns_ha_env_def idle_env_def)
  have advertised'': "relation_get dns_ha_amqp_env empty_world ''ssl_port''
        (Some ''rabbitmq-server/1'') (Some ''amqp:3'') = Some ''5671''"
    by (simp add: dns_ha_amqp_env_def)
  have first: \<open>amqp_ssl_port amqp_first_ssl_env empty_world = None
   \<and> (\<exists>settings resource_params.
         last (trace (snd (ha_joined amqp_first_ssl_env None empty_world)))
           = RelationSet None settings
       \<and> map_of settings ''resource_params'' = Some (VDict resource_params)
       \<and> map_of resource_params ''res_ceilometer_polling'' = Some ''op monitor interval="30s"'')\<close>
    using ha_joined_last_ssl_port [OF units run refl refl refl refl]
    by (simp add: liberty mode silent) blast?
  have last: \<open>\<exists>settings resource_params.
         last (trace (snd (ha_joined amqp_last_ssl_env None empty_world)))
           = RelationSet None settings
       \<and> map_of settings ''resource_params'' = Some (VDict resource_params)
       \<and> map_of resource_params ''res_ceilometer_polling''
           = Some ''params amqp_server_port="5671" op monitor interval="30s"''\<close>
    using ha_joined_last_ssl_port [OF units' run' refl refl refl refl]
    by (simp add: liberty' mode' advertised') blast?
  have dns: \<open>\<exists>settings resources resource_params built.
         last (trace (snd (ha_joined dns_ha_amqp_env None empty_world)))
           = RelationSet None settings
       \<and> map_of settings ''resource_params'' = Some (VDict resource_params)
       \<and> update_dns_ha_resource_params dns_ha_amqp_env None
            [(''res_ceilometer_haproxy'', ''lsb:haproxy''),
             (''res_ceilometer_polling'', ''ocf:openstack:ceilometer-polling'')]
            [(''res_ceilometer_haproxy'', ''op monitor interval="5s"''),
             (''res_ceilometer_polling'',
              ''params amqp_server_port="5671" op monitor interval="30s"'')]
            empty_world
          = (Inr (resources, resource_params), built)\<close>
    using ha_joined_last_ssl_port [OF units'' run'' refl refl refl refl]
    by (simp add: liberty'' mode'' advertised'') blast?
  show ?thesis
    using units advertised silent run first advertised' run' last mode'' run'' dns by blast
qed

text \<open>
  Claim C10: without DNS HA and with no configured virtual IP that has a local interface,
  \<^verbatim>\<open>ha_joined\<close> performs no write of the key \<^verbatim>\<open>groups\<close>, and the value of \<^verbatim>\<open>groups\<close> the
  unit has published before, on whatever relation, is the same after the run as before.
\<close>

theorem ha_joined_no_group_written:
  assumes "\<not> truthy (config env w ''dns-ha'')"
    and "get_hacluster_config env w = Inr cfg"
    and "map_of cfg ''vip'' = Some (VStr vips)"
    and "resolvable_vips env w (py_split vips) = []"
  shows "relation_data (snd (ha_joined env rid w)) r ''groups'' = relation_data w r ''groups''
       \<and> \<not> list_ex writes_groups (drop (length (trace w)) (trace (snd (ha_joined env rid w))))"
proof -
  have loop: "vip_resources env w
           (service_resources (res_key (release_ge env (os_release env w ''ceilometer-common'') ''liberty'')))
           (service_resource_params (res_key (release_ge env (os_release env w ''ceilometer-common'') ''liberty''))
              (amqp_ssl_port env w)) (py_split vips)
         = (service_resources (res_key (release_ge env (os_release env w ''ceilometer-common'') ''liberty'')),
            service_resource_params (res_key (release_ge env (os_release env w ''ceilometer-common'') ''liberty''))
              (amqp_ssl_port env w), [])"
    by (subst vip_resources_resolvable) (simp add: assms(4) vip_resources_def)
  show ?thesis
    unfolding ha_joined_non_dns [OF assms(2,1,3) refl loop]
    by (simp add: hook_defs dict_get_def relation_set_def record_event_def ha_settings_def
        store_settings_def split: option.splits)
qed

theorem ha_joined_no_group_written_witness:
  "resolvable_vips idle_env grouped_world (py_split ''10.0.0.10 192.168.7.10'') = []
   \<and> relation_data grouped_world None ''groups''
       = Some (VDict [(''grp_ceilometer_vips'', ''res_ceilometer_eth0_vip'')])
   \<and> relation_data (snd (ha_joined idle_env None grouped_world)) None ''groups''
       = Some (VDict [(''grp_ceilometer_vips'', ''res_ceilometer_eth0_vip'')])
   \<and> \<not> list_ex writes_groups (trace (snd (ha_joined idle_env None grouped_world)))"
proof -
  let ?cfg = "[(''ha-bindiface'', VStr ''eth0''), (''ha-mcastport'', VInt 5403),
               (''vip'', VStr ''10.0.0.10 192.168.7.10'')]"
  have mode: "\<not> truthy (config idle_env grouped_world ''dns-ha'')"
    by (simp add: idle_env_def)
  have cfg: "get_hacluster_config idle_env grouped_world = Inr ?cfg"
    by (simp add: idle_env_def)
  have vip: "map_of ?cfg ''vip'' = Some (VStr ''10.0.0.10 192.168.7.10'')"
    by simp
  have none: "resolvable_vips idle_env grouped_world (py_split ''10.0.0.10 192.168.7.10'') = []"
    by (simp add: resolvable_vips_def py_split_def is_space_def idle_env_def)
  show ?thesis
    using none ha_joined_no_group_written [OF mode cfg vip none, of None None]
    by (simp add: grouped_world_def empty_world_def)
qed

subsection \<open>The shared secret\<close>

text \<open>
  Whatever a handler does besides storing and setting the secret leaves a published
  secret alone: the rules below carry \<open>synced\<close> through the handlers.
\<close>

lemma synced_bind:
  assumes "\<And>w. synced s w \<Longrightarrow> synced s (snd (m w))"
    and "\<And>x w. synced s w \<Longrightarrow> synced s (snd (f x w))"
    and "synced s w"
  shows "synced s (snd (bind m f w))"
proof (cases "m w")
  case (Pair r w1)
  with assms(1) [OF assms(3)] have "synced s w1" by simp
  with Pair assms(2) show ?thesis
    by (cases r) (simp_all add: bind_def)
qed

lemma synced_seq:
  assumes "\<And>w. synced s w \<Longrightarrow> synced s (snd (m w))"
    and "\<And>w. synced s w \<Longrightarrow> synced s (snd (n w))"
    and "synced s w"
  shows "synced s (snd (seq m n w))"
  unfolding seq_def by (rule synced_bind) (use assms in auto)

lemma synced_only_if:
  assumes "\<And>w. synced s w \<Longrightarrow> synced s (snd (m w))" and "synced s w"
  shows "synced s (snd (only_if b m w))"
  using assms by (simp add: only_if_def ret_def)

lemma synced_simple:
  "synced s w \<Longrightarrow> synced s (snd (ret x w))"
  "synced s w \<Longrightarrow> synced s (snd (throw e w))"
  "synced s w \<Longrightarrow> synced s (snd (ask g w))"
  "synced s w \<Longrightarrow> synced s (snd (log msg w))"
  "synced s w \<Longrightarrow> synced s (snd (perform env ev w))"
  "synced s w \<Longrightarrow> synced s (snd (helper env name args w))"
  "synced s w \<Longrightarrow> synced s (snd (write_all env w))"
  "synced s w \<Longrightarrow> synced s (snd (relation_set env rid settings w))"
  by (simp_all add: synced_def ret_def throw_def ask_def log_def perform_def helper_def
      write_all_def relation_set_def record_event_def split: option.splits)

lemma synced_if:
  assumes "c \<Longrightarrow> synced s (snd (m w))" and "\<not> c \<Longrightarrow> synced s (snd (n w))"
  shows "synced s (snd ((if c then m else n) w))"
  using assms by simp

lemma synced_case_prod:
  assumes "\<And>a b. synced s (snd (f a b w))"
  shows "synced s (snd ((case x of (a, b) \<Rightarrow> f a b) w))"
  using assms by (cases x) simp

lemmas synced_rules = synced_bind synced_seq synced_only_if synced_if synced_case_prod
  synced_simple

lemma synced_install_ceilometer_ocf:
  "synced s w \<Longrightarrow> synced s (snd (install_ceilometer_ocf env w))"
  unfolding install_ceilometer_ocf_def
  by (intro synced_rules) assumption

lemma synced_publish:
  "synced s w \<Longrightarrow>
     synced s (snd (bind (get_shared_secret env) (\<lambda>secret. peer_store ''shared_secret'' secret) w))"
  by (simp add: synced_def bind_def get_shared_secret_def peer_store_def record_event_def)

lemma synced_cluster_joined:
  "synced s w \<Longrightarrow> synced s (snd (cluster_joined env rid w))"
  unfolding cluster_joined_def
  by (intro synced_rules synced_install_ceilometer_ocf synced_publish) assumption

lemma leader_publishes:
  assumes "\<forall>w'. is_elected_leader env w' ''grp_ceilometer_vips''"
    and "fst (cluster_joined env rid w) = Inr ()"
  shows "\<exists>secret. synced secret (snd (cluster_joined env rid w))"
proof -
  obtain r1 w1 where i: "install_ceilometer_ocf env w = (r1, w1)"
    by force
  show ?thesis
    using assms
    by (cases r1; simp add: cluster_joined_def hook_defs i get_shared_secret_def
        set_shared_secret_def peer_store_def write_all_def perform_def relation_set_def
        record_event_def synced_def split: option.splits)
qed

text \<open>
  Claim C4, in three parts. A follower's \<^verbatim>\<open>cluster_changed\<close> (the handler of
  \<^verbatim>\<open>cluster-relation-changed\<close> and \<^verbatim>\<open>cluster-relation-departed\<close>) that finds a non-blank
  secret in the peer storage that differs from the local copy makes the local copy equal
  to it, and does not write the peer storage. A leader's \<^verbatim>\<open>cluster_joined\<close> that returns
  leaves the peer storage holding the unit's own copy of the secret. And once the peer
  storage holds the unit's own copy, neither \<^verbatim>\<open>cluster_joined\<close> nor \<^verbatim>\<open>cluster_changed\<close>
  changes the one or the other: a published secret is never replaced by a different one.
\<close>

theorem cluster_secret_convergence:
  "(peer_data w ''shared_secret'' = Some secret \<and> py_strip secret \<noteq> []
      \<and> local_secret w \<noteq> Some secret
    \<longrightarrow> local_secret (snd (cluster_changed env w)) = Some secret
        \<and> peer_data (snd (cluster_changed env w)) = peer_data w)
 \<and> ((\<forall>w'. is_elected_leader env w' ''grp_ceilometer_vips'')
      \<and> fst (cluster_joined env rid w) = Inr ()
    \<longrightarrow> (\<exists>published. synced published (snd (cluster_joined env rid w))))
 \<and> (synced published w
    \<longrightarrow> synced published (snd (cluster_joined env rid w))
        \<and> synced published (snd (cluster_changed env w)))"
proof (intro conjI impI)
  assume differs: "peer_data w ''shared_secret'' = Some secret \<and> py_strip secret \<noteq> []
      \<and> local_secret w \<noteq> Some secret"
  then show "local_secret (snd (cluster_changed env w)) = Some secret"
    by (simp add: cluster_changed_def hook_defs peer_retrieve_def get_shared_secret_def
        set_shared_secret_def write_all_def perform_def record_event_def
        split: option.splits)
  from differs show "peer_data (snd (cluster_changed env w)) = peer_data w"
    by (simp add: cluster_changed_def hook_defs peer_retrieve_def get_shared_secret_def
        set_shared_secret_def write_all_def perform_def record_event_def
        split: option.splits)
next
  assume "(\<forall>w'. is_elected_leader env w' ''grp_ceilometer_vips'')
      \<and> fst (cluster_joined env rid w) = Inr ()"
  then show "\<exists>published. synced published (snd (cluster_joined env rid w))"
    by (simp add: leader_publishes)
next
  assume published: "synced published w"
  then show "synced published (snd (cluster_joined env rid w))"
    by (rule synced_cluster_joined)
  from published show "synced published (snd (cluster_changed env w))"
    by (simp add: synced_def cluster_changed_def hook_defs peer_retrieve_def
        get_shared_secret_def set_shared_secret_def write_all_def perform_def record_event_def
        log_def split: option.splits)
qed

text \<open>
  A follower with a stale copy takes the secret over; a leader without a secret generates
  and publishes one; a leader that has published \<^verbatim>\<open>s3cret\<close> publishes \<^verbatim>\<open>s3cret\<close> again.
\<close>

theorem cluster_secret_convergence_witness:
  "peer_data follower_world ''shared_secret'' = Some ''s3cret''
   \<and> py_strip ''s3cret'' \<noteq> []
   \<and> local_secret follower_world = Some ''stale''
   \<and> local_secret (snd (cluster_changed idle_env follower_world)) = Some ''s3cret''
   \<and> fst (cluster_joined leader_env None empty_world) = Inr ()
   \<and> synced ''c0ffee'' (snd (cluster_joined leader_env None empty_world))
   \<and> synced ''s3cret'' published_world
   \<and> synced ''s3cret'' (snd (cluster_joined leader_env None published_world))"
proof -
  have peer: "peer_data follower_world ''shared_secret'' = Some ''s3cret''"
    and stale: "local_secret follower_world = Some ''stale''"
    by (simp_all add: follower_world_def empty_world_def)
  have nonblank: "py_strip ''s3cret'' \<noteq> []"
    by (simp add: py_strip_def is_space_def)
  have leader: "\<forall>w'. is_elected_leader leader_env w' ''grp_ceilometer_vips''"
    by (simp add: leader_env_def)
  have returns: "fst (cluster_joined leader_env None empty_world) = Inr ()"
    by (simp add: cluster_joined_def install_ceilometer_ocf_def hook_defs action_defs
        get_shared_secret_def set_shared_secret_def peer_store_def leader_env_def idle_env_def
        empty_world_def)
  have generated: "synced published (snd (cluster_joined leader_env None empty_world))
                     \<Longrightarrow> published = ''c0ffee''" for published
    by (simp add: synced_def cluster_joined_def install_ceilometer_ocf_def hook_defs action_defs
        get_shared_secret_def set_shared_secret_def peer_store_def record_event_def
        leader_env_def idle_env_def empty_world_def)
  have published: "synced ''s3cret'' published_world"
    by (simp add: synced_def published_world_def empty_world_def)
  from cluster_secret_convergence
         [of follower_world "''s3cret''" idle_env None "''s3cret''"] peer stale nonblank
  have follower: "local_secret (snd (cluster_changed idle_env follower_world)) = Some ''s3cret''"
    by simp
  from cluster_secret_convergence
         [of empty_world "''s3cret''" leader_env None "''s3cret''"] leader returns generated
  have first: "synced ''c0ffee'' (snd (cluster_joined leader_env None empty_world))"
    by blast
  from cluster_secret_convergence
         [of published_world "''s3cret''" leader_env None "''s3cret''"] published
  have again: "synced ''s3cret'' (snd (cluster_joined leader_env None published_world))"
    by simp
  show ?thesis
    using peer nonblank stale follower returns first published again by simp
qed

end
